theory Spec2Isabelle
  imports Complex_Main "HOL-Library.Product_Lexorder"
begin

section \<open>Data model of the billing dialog\<close>

text \<open>
  The billing dialog (\<^verbatim>\<open>BillingDialog.tsx\<close>) keeps a cart in component state and talks
  to a remote directory holding the tables \<^verbatim>\<open>products\<close> and \<^verbatim>\<open>inventory_batches\<close>.
  Rows are records, quantities are integers, prices are exact rationals (the source's
  numbers are doubles; rounding is not modelled), and a calendar date is a triple
  (year, month, day) ordered lexicographically, which is its chronological order.
\<close>

type_synonym date = "nat \<times> nat \<times> nat"

record product =
  prod_id :: string
  prod_name :: string
  prod_gtin :: "string option"

record batch =
  batch_id :: string
  product_id :: string
  shop_id :: string
  quantity :: int
  mrp :: rat
  discount_percent :: "rat option"
  expiry_date :: date
  status :: string

record CartItem =
  productId :: string
  gtin :: "string option"
  name :: string
  qty :: int
  unitPrice :: rat
  availableQty :: int

text \<open>
  The OCR result \<^verbatim>\<open>{ gtin, productName, expiryDate }\<close>; every field may be absent.
  The expiry date is only ever compared for equality with the expiry date of a batch.
\<close>

record ocrData =
  ocr_gtin :: "string option"
  productName :: "string option"
  expiryDate :: "date option"

subsection \<open>Remote calls, user-visible effects and the component state\<close>

text \<open>
  Every query chain of the source is one request to the directory. The trace records, in
  program order, the requests issued and the effects visible to the operator.
\<close>

datatype request =
    ProductByGtin string
  | ProductsByName string
  | BatchProbe string date
  | BatchesFor string "date option"
  | BatchesFEFO string
  | BatchUpdate string int string

datatype toast =
    ProductNotFound
  | OutOfStock
  | MaxQuantityReached
  | NotEnoughStock int
  | CartIsEmpty
  | CheckoutSuccessful
  | InventoryUpdateFailed string

record receipt =
  receipt_shop :: string
  receipt_lines :: "(string \<times> int \<times> rat \<times> rat) list"
  receipt_subtotal :: rat

datatype event =
    Remote request
  | WindowOpen
  | ReceiptWritten receipt
  | Toast toast
  | ConsoleError
  | InventoryUpdated

text \<open>
  The environment of the component: its props, and what the code cannot decide itself.
  \<open>fails\<close> says whether a remote call returns an error (with its message), given
  everything that happened before; \<open>ilike\<close> is the directory's case-insensitive
  pattern match; \<open>popup\<close> says whether \<^verbatim>\<open>window.open\<close> returns a window.
\<close>

record env =
  shopId :: string
  shopName :: "string option"
  fails :: "event list \<Rightarrow> request \<Rightarrow> string option"
  ilike :: "string \<Rightarrow> string \<Rightarrow> bool"
  popup :: bool

record state =
  products :: "product list"
  inventory_batches :: "batch list"
  cart :: "CartItem list"
  isOpen :: bool
  isScanning :: bool
  isCheckingOut :: bool
  isCameraOpen :: bool
  trace :: "event list"

definition emit :: "event \<Rightarrow> state \<Rightarrow> state" where
  "emit ev s = s\<lparr>trace := trace s @ [ev]\<rparr>"

definition remote :: "env \<Rightarrow> request \<Rightarrow> state \<Rightarrow> string option \<times> state" where
  "remote e r s = (fails e (trace s) r, emit (Remote r) s)"

definition reliable :: "env \<Rightarrow> bool" where
  "reliable e \<longleftrightarrow> (\<forall>h r. fails e h r = None)"

subsection \<open>Directory queries\<close>

text \<open>
  The filter shared by every batch query of the source:
  \<^verbatim>\<open>.eq("product_id", ..).eq("shop_id", shopId).eq("status", "active").gt("quantity", 0)\<close>.
\<close>

definition qualifying :: "env \<Rightarrow> string \<Rightarrow> batch \<Rightarrow> bool" where
  "qualifying e pid b \<longleftrightarrow>
     product_id b = pid \<and> shop_id b = shopId e \<and> status b = ''active'' \<and> 0 < quantity b"

text \<open>
  \<^verbatim>\<open>.eq("gtin", g).maybeSingle()\<close>: the row when exactly one matches; \<^verbatim>\<open>data\<close> is null
  when none matches, when several match (an error of \<^verbatim>\<open>maybeSingle\<close>) and when the
  call fails.
\<close>

definition select_product_by_gtin :: "env \<Rightarrow> string \<Rightarrow> state \<Rightarrow> product option \<times> state" where
  "select_product_by_gtin e g s =
     (case remote e (ProductByGtin g) s of
        (Some err, s') \<Rightarrow> (None, s')
      | (None, s') \<Rightarrow>
          (case filter (\<lambda>p. prod_gtin p = Some g) (products s') of
             [p] \<Rightarrow> (Some p, s')
           | _ \<Rightarrow> (None, s')))"

text \<open>\<^verbatim>\<open>.ilike("name", `%${nameQuery}%`).limit(5)\<close>\<close>

definition select_products_ilike :: "env \<Rightarrow> string \<Rightarrow> state \<Rightarrow> product list option \<times> state" where
  "select_products_ilike e nameQuery s =
     (case remote e (ProductsByName nameQuery) s of
        (Some err, s') \<Rightarrow> (None, s')
      | (None, s') \<Rightarrow>
          (Some (take 5 (filter (\<lambda>p. ilike e (''%'' @ nameQuery @ ''%'') (prod_name p))
                           (products s'))), s'))"

text \<open>The probe of the tie-break: the shared filter, the exact expiry date, \<^verbatim>\<open>.limit(1)\<close>.\<close>

definition select_batches_probe ::
  "env \<Rightarrow> string \<Rightarrow> date \<Rightarrow> state \<Rightarrow> batch list option \<times> state" where
  "select_batches_probe e pid d s =
     (case remote e (BatchProbe pid d) s of
        (Some err, s') \<Rightarrow> (None, s')
      | (None, s') \<Rightarrow>
          (Some (take 1 (filter (\<lambda>b. qualifying e pid b \<and> expiry_date b = d)
                           (inventory_batches s'))), s'))"

text \<open>The inventory query of step 3, with the expiry filter when a date is given.\<close>

definition select_batches ::
  "env \<Rightarrow> string \<Rightarrow> date option \<Rightarrow> state \<Rightarrow> batch list option \<times> state" where
  "select_batches e pid dopt s =
     (case remote e (BatchesFor pid dopt) s of
        (Some err, s') \<Rightarrow> (None, s')
      | (None, s') \<Rightarrow>
          (Some (filter (\<lambda>b. qualifying e pid b \<and>
                              (case dopt of None \<Rightarrow> True | Some d \<Rightarrow> expiry_date b = d))
                   (inventory_batches s')), s'))"

text \<open>
  The checkout query: the shared filter, \<^verbatim>\<open>.order("expiry_date", { ascending: true })\<close>.
  Rows with the same expiry date keep their table order.
\<close>

definition rows_fefo :: "env \<Rightarrow> string \<Rightarrow> batch list \<Rightarrow> batch list" where
  "rows_fefo e pid rows = sort_key expiry_date (filter (qualifying e pid) rows)"

definition select_batches_fefo ::
  "env \<Rightarrow> string \<Rightarrow> state \<Rightarrow> (string + batch list) \<times> state" where
  "select_batches_fefo e pid s =
     (case remote e (BatchesFEFO pid) s of
        (Some err, s') \<Rightarrow> (Inl err, s')
      | (None, s') \<Rightarrow> (Inr (rows_fefo e pid (inventory_batches s')), s'))"

text \<open>\<^verbatim>\<open>.update({ quantity, status }).eq("id", batch.id)\<close>; a failed update changes no row.\<close>

definition write_batch :: "string \<Rightarrow> int \<Rightarrow> string \<Rightarrow> batch list \<Rightarrow> batch list" where
  "write_batch bid q st rows =
     map (\<lambda>r. if batch_id r = bid then r\<lparr>quantity := q, status := st\<rparr> else r) rows"

definition update_batch ::
  "env \<Rightarrow> string \<Rightarrow> int \<Rightarrow> string \<Rightarrow> state \<Rightarrow> string option \<times> state" where
  "update_batch e bid q st s =
     (case remote e (BatchUpdate bid q st) s of
        (Some err, s') \<Rightarrow> (Some err, s')
      | (None, s') \<Rightarrow>
          (None, s'\<lparr>inventory_batches := write_batch bid q st (inventory_batches s')\<rparr>))"

section \<open>Cart resolver: \<^verbatim>\<open>resolveScannedProductToCart\<close>\<close>

text \<open>JavaScript truthiness of an optional string: absent and empty are both falsy.\<close>

definition truthy :: "string option \<Rightarrow> bool" where
  "truthy x = (case x of None \<Rightarrow> False | Some v \<Rightarrow> v \<noteq> [])"

text \<open>\<^verbatim>\<open>x && x.length > 0\<close> on a query result that is null after a failed call.\<close>

definition nonempty :: "'a list option \<Rightarrow> bool" where
  "nonempty x = (case x of None \<Rightarrow> False | Some v \<Rightarrow> v \<noteq> [])"

text \<open>
  \<^verbatim>\<open>String.prototype.trim\<close> on the ASCII white space; strings here are byte lists, so
  the Unicode spaces JavaScript also strips are not told apart.
\<close>

definition is_space :: "char \<Rightarrow> bool" where
  "is_space c \<longleftrightarrow> c \<in> {CHR '' '', CHR 0x09, CHR 0x0A, CHR 0x0B, CHR 0x0C, CHR 0x0D}"

definition trim :: "string \<Rightarrow> string" where
  "trim x = rev (dropWhile is_space (rev (dropWhile is_space x)))"

text \<open>
  The loop over the name-matched candidates (lines 151 to 166): the first candidate whose
  probe returns a row is taken and the loop stops.
\<close>

fun probeCandidates ::
  "env \<Rightarrow> date \<Rightarrow> product list \<Rightarrow> state \<Rightarrow> product option \<times> state" where
  "probeCandidates e d [] s = (None, s)"
| "probeCandidates e d (p # ps) s =
     (case select_batches_probe e (prod_id p) d s of
        (batches, s') \<Rightarrow>
          if nonempty batches then (Some p, s') else probeCandidates e d ps s')"

text \<open>Steps 1 and 2 (lines 125 to 172): the value of \<^verbatim>\<open>productData\<close>.\<close>

definition matchProduct :: "env \<Rightarrow> ocrData \<Rightarrow> state \<Rightarrow> product option \<times> state" where
  "matchProduct e ocr s =
     (case (case ocr_gtin ocr of
              Some g \<Rightarrow> if g \<noteq> [] then select_product_by_gtin e g s else (None, s)
            | None \<Rightarrow> (None, s)) of
        (Some p, s1) \<Rightarrow> (Some p, s1)
      | (None, s1) \<Rightarrow>
          (case productName ocr of
             None \<Rightarrow> (None, s1)
           | Some nm \<Rightarrow>
               if nm = [] then (None, s1)
               else
                 (case select_products_ilike e (trim nm) s1 of
                    (Some (first # others), s2) \<Rightarrow>
                      (case expiryDate ocr of
                         None \<Rightarrow> (Some first, s2)
                       | Some d \<Rightarrow>
                           (case probeCandidates e d (first # others) s2 of
                              (Some p, s3) \<Rightarrow> (Some p, s3)
                            | (None, s3) \<Rightarrow> (Some first, s3)))
                  | (_, s2) \<Rightarrow> (None, s2))))"

text \<open>
  Step 3 (lines 179 to 209): the filtered query, then the query without the expiry filter
  when the first returned nothing and a date was given. An error of the first query is
  ignored; an error of the second is logged to the console and otherwise ignored.
\<close>

definition fetchBatches ::
  "env \<Rightarrow> ocrData \<Rightarrow> product \<Rightarrow> state \<Rightarrow> batch list option \<times> state" where
  "fetchBatches e ocr p s =
     (case select_batches e (prod_id p) (expiryDate ocr) s of
        (inventoryBatches, s1) \<Rightarrow>
          if \<not> nonempty inventoryBatches \<and> expiryDate ocr \<noteq> None
          then (case select_batches e (prod_id p) None s1 of
                  (None, s2) \<Rightarrow> (None, emit ConsoleError s2)
                | (Some fallbackBatches, s2) \<Rightarrow> (Some fallbackBatches, s2))
          else (inventoryBatches, s1))"

text \<open>Lines 216 to 218.\<close>

definition availableQty_of :: "batch list \<Rightarrow> int" where
  "availableQty_of batches = foldl (\<lambda>sum b. sum + quantity b) 0 batches"

definition unitPrice_of :: "batch \<Rightarrow> rat" where
  "unitPrice_of firstBatch =
     mrp firstBatch *
       (1 - (case discount_percent firstBatch of None \<Rightarrow> 0 | Some d \<Rightarrow> d) / 100)"

text \<open>Step 4 (lines 221 to 242): the update of the cart.\<close>

definition addToCart :: "ocrData \<Rightarrow> product \<Rightarrow> batch \<Rightarrow> batch list \<Rightarrow> state \<Rightarrow> state" where
  "addToCart ocr p firstBatch batches s =
     (case find (\<lambda>item. productId item = prod_id p) (cart s) of
        Some existingItem \<Rightarrow>
          if qty existingItem < availableQty_of batches
          then s\<lparr>cart := map (\<lambda>item. if productId item = prod_id p
                                      then item\<lparr>qty := qty item + 1\<rparr> else item) (cart s)\<rparr>
          else emit (Toast MaxQuantityReached) s
      | None \<Rightarrow>
          s\<lparr>cart := cart s @
             [\<lparr>productId = prod_id p,
               gtin = (if truthy (ocr_gtin ocr) then ocr_gtin ocr else None),
               name = prod_name p,
               qty = 1,
               unitPrice = unitPrice_of firstBatch,
               availableQty = availableQty_of batches\<rparr>]\<rparr>)"

definition resolveScannedProductToCart :: "env \<Rightarrow> ocrData \<Rightarrow> state \<Rightarrow> state" where
  "resolveScannedProductToCart e ocr s =
     (case matchProduct e ocr s of
        (None, s1) \<Rightarrow> emit (Toast ProductNotFound) s1
      | (Some p, s1) \<Rightarrow>
          (case fetchBatches e ocr p s1 of
             (Some (firstBatch # others), s2) \<Rightarrow> addToCart ocr p firstBatch (firstBatch # others) s2
           | (_, s2) \<Rightarrow> emit (Toast OutOfStock) s2))"

section \<open>Cart manager: \<^verbatim>\<open>changeQty\<close>, \<^verbatim>\<open>removeItem\<close>, \<^verbatim>\<open>resetState\<close>\<close>

text \<open>
  The callback of \<^verbatim>\<open>cart.map\<close> in \<^verbatim>\<open>changeQty\<close> (lines 246 to 257), split into the
  item it returns and the toast it raises. \<open>newQty\<close> is the integer the input field
  parses to; a value that does not parse (NaN) fails both comparisons and leaves the
  item as it is, as a \<open>newQty \<le> 0\<close> within the cap does.
\<close>

definition changeQtyItem :: "string \<Rightarrow> int \<Rightarrow> CartItem \<Rightarrow> CartItem" where
  "changeQtyItem pid newQty item =
     (if productId item = pid then
        (if 0 < newQty \<and> newQty \<le> availableQty item then item\<lparr>qty := newQty\<rparr>
         else if availableQty item < newQty then item\<lparr>qty := availableQty item\<rparr>
         else item)
      else item)"

definition changeQtyToasts :: "string \<Rightarrow> int \<Rightarrow> CartItem \<Rightarrow> event list" where
  "changeQtyToasts pid newQty item =
     (if productId item = pid \<and> \<not> (0 < newQty \<and> newQty \<le> availableQty item)
         \<and> availableQty item < newQty
      then [Toast (NotEnoughStock (availableQty item))] else [])"

definition changeQty :: "string \<Rightarrow> int \<Rightarrow> state \<Rightarrow> state" where
  "changeQty pid newQty s =
     s\<lparr>cart := map (changeQtyItem pid newQty) (cart s),
       trace := trace s @ concat (map (changeQtyToasts pid newQty) (cart s))\<rparr>"

definition removeItem :: "string \<Rightarrow> state \<Rightarrow> state" where
  "removeItem pid s = s\<lparr>cart := filter (\<lambda>item. productId item \<noteq> pid) (cart s)\<rparr>"

definition resetState :: "state \<Rightarrow> state" where
  "resetState s =
     s\<lparr>cart := [], isScanning := False, isCheckingOut := False, isCameraOpen := False\<rparr>"

text \<open>The handler the dialog is given for its open and close events (line 379).\<close>

definition onOpenChange :: "bool \<Rightarrow> state \<Rightarrow> state" where
  "onOpenChange opn s = (if \<not> opn then resetState (s\<lparr>isOpen := opn\<rparr>) else s\<lparr>isOpen := opn\<rparr>)"

section \<open>Checkout: \<^verbatim>\<open>finalizeCheckout\<close> and \<^verbatim>\<open>generateReceiptHtml\<close>\<close>

definition subtotal :: "CartItem list \<Rightarrow> rat" where
  "subtotal items = foldl (\<lambda>sum item. sum + of_int (qty item) * unitPrice item) 0 items"

text \<open>
  The receipt as the data written into the new window; the markup and the timestamp are
  left out. Nothing is written when \<^verbatim>\<open>window.open\<close> returns null.
\<close>

definition receipt_of :: "env \<Rightarrow> CartItem list \<Rightarrow> receipt" where
  "receipt_of e items =
     \<lparr>receipt_shop =
        (case shopName e of None \<Rightarrow> ''Your Shop''
         | Some n \<Rightarrow> if n = [] then ''Your Shop'' else n),
      receipt_lines =
        map (\<lambda>item. (name item, qty item, unitPrice item, of_int (qty item) * unitPrice item)) items,
      receipt_subtotal = subtotal items\<rparr>"

definition generateReceiptHtml :: "env \<Rightarrow> state \<Rightarrow> state" where
  "generateReceiptHtml e s =
     (let s1 = emit WindowOpen s in
      if popup e then emit (ReceiptWritten (receipt_of e (cart s))) s1 else s1)"

text \<open>
  The inner loop (lines 291 to 314) over the fetched rows, with \<^verbatim>\<open>quantityToDeduct\<close> as
  an argument. The result is the message of the error thrown, if any, and the state
  reached; updates already written stay written.
\<close>

fun deductBatches ::
  "env \<Rightarrow> CartItem \<Rightarrow> int \<Rightarrow> batch list \<Rightarrow> state \<Rightarrow> string option \<times> state" where
  "deductBatches e item quantityToDeduct [] s = (None, s)"
| "deductBatches e item quantityToDeduct (b # bs) s =
     (if quantityToDeduct = 0 then (None, s)
      else
        let deduction = min quantityToDeduct (quantity b);
            newQuantity = quantity b - deduction
        in case update_batch e (batch_id b) newQuantity
                  (if newQuantity = 0 then ''sold_out'' else ''active'') s of
             (Some err, s') \<Rightarrow>
               (Some (''Failed to update inventory for '' @ name item @ ''. Please check manually.''),
                emit ConsoleError s')
           | (None, s') \<Rightarrow> deductBatches e item (quantityToDeduct - deduction) bs s')"

text \<open>One iteration of the outer loop (lines 277 to 315).\<close>

definition deductItem :: "env \<Rightarrow> CartItem \<Rightarrow> state \<Rightarrow> string option \<times> state" where
  "deductItem e item s =
     (case select_batches_fefo e (productId item) s of
        (Inl msg, s1) \<Rightarrow> (Some (''Failed to fetch batches for '' @ name item @ '': '' @ msg), s1)
      | (Inr batches, s1) \<Rightarrow> deductBatches e item (qty item) batches s1)"

fun deductCart :: "env \<Rightarrow> CartItem list \<Rightarrow> state \<Rightarrow> string option \<times> state" where
  "deductCart e [] s = (None, s)"
| "deductCart e (item # items) s =
     (case deductItem e item s of
        (Some msg, s1) \<Rightarrow> (Some msg, s1)
      | (None, s1) \<Rightarrow> deductCart e items s1)"

text \<open>The state in which the deduction loop starts: receipt first, then the busy flag.\<close>

definition checkout_start :: "env \<Rightarrow> state \<Rightarrow> state" where
  "checkout_start e s = (generateReceiptHtml e s)\<lparr>isCheckingOut := True\<rparr>"

definition finalizeCheckout :: "env \<Rightarrow> state \<Rightarrow> state" where
  "finalizeCheckout e s =
     (if cart s = [] then emit (Toast CartIsEmpty) s
      else
        case deductCart e (cart s) (checkout_start e s) of
          (None, s3) \<Rightarrow>
            (emit InventoryUpdated (emit (Toast CheckoutSuccessful) s3))
              \<lparr>isOpen := False, isCheckingOut := False\<rparr>
        | (Some msg, s3) \<Rightarrow>
            (emit (Toast (InventoryUpdateFailed
                     (if msg = [] then
                        ''The receipt was printed, but inventory could not be updated.''
                      else msg)))
               (emit ConsoleError s3))
              \<lparr>isCheckingOut := False\<rparr>)"

section \<open>First-expiry-first-out, as the specification words it\<close>

text \<open>
  The specification of the settlement engine: walking the batches in the given order,
  take \<open>min(remaining, quantity)\<close> from each, write the reduced quantity back and mark
  the batch depleted when it reaches zero. \<open>fefo_spec\<close> gives the rows as they should
  be afterwards; \<open>replace_rows\<close> puts such rows into the table, by identifier.
\<close>

fun fefo_spec :: "int \<Rightarrow> batch list \<Rightarrow> batch list" where
  "fefo_spec remaining [] = []"
| "fefo_spec remaining (b # bs) =
     (let taken = min remaining (quantity b); left = quantity b - taken
      in b\<lparr>quantity := left, status := (if left = 0 then ''sold_out'' else status b)\<rparr>
           # fefo_spec (remaining - taken) bs)"

definition replace_rows :: "batch list \<Rightarrow> batch list \<Rightarrow> batch list" where
  "replace_rows new rows =
     map (\<lambda>r. case find (\<lambda>b. batch_id b = batch_id r) new of Some b \<Rightarrow> b | None \<Rightarrow> r) rows"

text \<open>
  The same, for a whole checkout. A cart line is settled against the qualifying batches
  of its product, in expiry order, as the table stands when the line is reached
  (\<open>line_rows\<close>), and the lines are settled in cart order (\<open>fefo_cart\<close>). The deduction
  of a line goes on "until the requested quantity is fully satisfied or batches are
  exhausted": a batch is written only while the batches before it hold less than the
  request, so \<open>needed\<close> of them are written. \<open>line_requests\<close> and \<open>fefo_requests\<close> list
  the remote calls this takes: for each line one fetch, then one update for every batch
  written, carrying the quantity and the status the batch is left with.
\<close>

definition needed :: "int \<Rightarrow> batch list \<Rightarrow> nat" where
  "needed n bs =
     length (takeWhile (\<lambda>i. sum_list (map quantity (take i bs)) < n) [0..<length bs])"

definition update_of :: "batch \<Rightarrow> event" where
  "update_of b = Remote (BatchUpdate (batch_id b) (quantity b) (status b))"

definition line_rows :: "env \<Rightarrow> CartItem \<Rightarrow> batch list \<Rightarrow> batch list" where
  "line_rows e item rows =
     replace_rows (fefo_spec (qty item) (rows_fefo e (productId item) rows)) rows"

definition line_requests :: "env \<Rightarrow> CartItem \<Rightarrow> batch list \<Rightarrow> event list" where
  "line_requests e item rows =
     Remote (BatchesFEFO (productId item)) #
     map update_of
       (take (needed (qty item) (rows_fefo e (productId item) rows))
          (fefo_spec (qty item) (rows_fefo e (productId item) rows)))"

fun fefo_cart :: "env \<Rightarrow> CartItem list \<Rightarrow> batch list \<Rightarrow> batch list" where
  "fefo_cart e [] rows = rows"
| "fefo_cart e (item # items) rows = fefo_cart e items (line_rows e item rows)"

fun fefo_requests :: "env \<Rightarrow> CartItem list \<Rightarrow> batch list \<Rightarrow> event list" where
  "fefo_requests e [] rows = []"
| "fefo_requests e (item # items) rows =
     line_requests e item rows @ fefo_requests e items (line_rows e item rows)"

text \<open>
  Where a line stands after some of its batches: \<open>remaining_after n bs\<close> is what is
  still to be deducted of a request of \<open>n\<close> units once the batches \<open>bs\<close> have been gone
  through, and \<open>update_request remaining b\<close> is the update sent for the next batch \<open>b\<close>.
\<close>

fun remaining_after :: "int \<Rightarrow> batch list \<Rightarrow> int" where
  "remaining_after n [] = n"
| "remaining_after n (b # bs) =
     (if n = 0 then 0 else remaining_after (n - min n (quantity b)) bs)"

definition update_request :: "int \<Rightarrow> batch \<Rightarrow> request" where
  "update_request remaining b =
     (let left = quantity b - min remaining (quantity b)
      in BatchUpdate (batch_id b) left (if left = 0 then ''sold_out'' else ''active''))"

section \<open>The carts a session can hold\<close>

text \<open>
  A session starts with an empty cart (and \<^verbatim>\<open>resetState\<close> empties it again). The cart
  is then changed only by a scan, a quantity edit or a removal; every other step, in the
  component or in the directory, leaves it as it is.
\<close>

inductive reachable :: "state \<Rightarrow> bool" where
  opened: "cart s = [] \<Longrightarrow> reachable s"
| other: "reachable s \<Longrightarrow> cart s' = cart s \<Longrightarrow> reachable s'"
| scanned: "reachable s \<Longrightarrow> reachable (resolveScannedProductToCart e ocr s)"
| edited: "reachable s \<Longrightarrow> reachable (changeQty pid n s)"
| removed: "reachable s \<Longrightarrow> reachable (removeItem pid s)"

definition cart_ok :: "CartItem list \<Rightarrow> bool" where
  "cart_ok items \<longleftrightarrow> (\<forall>item \<in> set items. 1 \<le> qty item \<and> 1 \<le> availableQty item)"

section \<open>The matching policy, as the specification words it\<close>

text \<open>
  The terms in which the resolver's contract is stated: the products a code or a name
  matches, whether a candidate has an active batch at this shop with a given expiry date
  and positive quantity, the batches the stock lookup settles on (those with the exact
  expiry date when there are any, all of the product's otherwise), and the requests
  each step issues.
\<close>

definition has_batch_on :: "env \<Rightarrow> batch list \<Rightarrow> date \<Rightarrow> product \<Rightarrow> bool" where
  "has_batch_on e rows d p \<longleftrightarrow>
     (\<exists>b \<in> set rows. qualifying e (prod_id p) b \<and> expiry_date b = d)"

definition name_matches :: "env \<Rightarrow> string \<Rightarrow> product list \<Rightarrow> product list" where
  "name_matches e nm ps = take 5 (filter (\<lambda>p. ilike e (''%'' @ trim nm @ ''%'') (prod_name p)) ps)"

definition code_matches :: "string option \<Rightarrow> product list \<Rightarrow> product list" where
  "code_matches code ps =
     (case code of None \<Rightarrow> []
      | Some g \<Rightarrow> if g = [] then [] else filter (\<lambda>p. prod_gtin p = Some g) ps)"

definition code_lookup :: "string option \<Rightarrow> event list" where
  "code_lookup code =
     (case code of None \<Rightarrow> []
      | Some g \<Rightarrow> if g = [] then [] else [Remote (ProductByGtin g)])"

definition exact_batches :: "env \<Rightarrow> string \<Rightarrow> date \<Rightarrow> batch list \<Rightarrow> batch list" where
  "exact_batches e pid d rows = filter (\<lambda>b. qualifying e pid b \<and> expiry_date b = d) rows"

definition all_batches :: "env \<Rightarrow> string \<Rightarrow> batch list \<Rightarrow> batch list" where
  "all_batches e pid rows = filter (qualifying e pid) rows"

definition chosen_batches :: "env \<Rightarrow> string \<Rightarrow> date option \<Rightarrow> batch list \<Rightarrow> batch list" where
  "chosen_batches e pid dopt rows =
     (case dopt of
        None \<Rightarrow> all_batches e pid rows
      | Some d \<Rightarrow>
          if exact_batches e pid d rows \<noteq> [] then exact_batches e pid d rows
          else all_batches e pid rows)"

definition stock_requests :: "env \<Rightarrow> string \<Rightarrow> date option \<Rightarrow> batch list \<Rightarrow> event list" where
  "stock_requests e pid dopt rows =
     (case dopt of
        None \<Rightarrow> [Remote (BatchesFor pid None)]
      | Some d \<Rightarrow>
          if exact_batches e pid d rows \<noteq> [] then [Remote (BatchesFor pid (Some d))]
          else [Remote (BatchesFor pid (Some d)), Remote (BatchesFor pid None)])"

definition probed :: "env \<Rightarrow> batch list \<Rightarrow> date \<Rightarrow> product list \<Rightarrow> product list" where
  "probed e rows d ps = take (Suc (length (takeWhile (\<lambda>p. \<not> has_batch_on e rows d p) ps))) ps"

section \<open>Example data\<close>

definition shop_env :: env where
  "shop_env =
     \<lparr>shopId = ''shop-1'', shopName = Some ''Corner Shop'',
      fails = (\<lambda>h r. None),
      ilike = (\<lambda>pat nm. pat = ''%milk%'' \<and> nm \<in> {''Milk A'', ''Milk B'', ''Milk C''}),
      popup = True\<rparr>"

definition session :: "product list \<Rightarrow> batch list \<Rightarrow> CartItem list \<Rightarrow> state" where
  "session ps bs items =
     \<lparr>products = ps, inventory_batches = bs, cart = items, isOpen = True,
      isScanning = False, isCheckingOut = False, isCameraOpen = False, trace = []\<rparr>"

definition stock :: "string \<Rightarrow> string \<Rightarrow> int \<Rightarrow> date \<Rightarrow> batch" where
  "stock bid pid q d =
     \<lparr>batch_id = bid, product_id = pid, shop_id = ''shop-1'', quantity = q, mrp = 40,
      discount_percent = Some 25, expiry_date = d, status = ''active''\<rparr>"

definition line :: "string \<Rightarrow> string \<Rightarrow> int \<Rightarrow> int \<Rightarrow> CartItem" where
  "line pid nm q cap =
     \<lparr>productId = pid, gtin = None, name = nm, qty = q, unitPrice = 30, availableQty = cap\<rparr>"

definition two_scans :: state where
  "two_scans =
     resolveScannedProductToCart shop_env
       \<lparr>ocr_gtin = Some ''8902'', productName = None, expiryDate = None\<rparr>
       (resolveScannedProductToCart shop_env
          \<lparr>ocr_gtin = Some ''8901'', productName = None, expiryDate = None\<rparr>
          (session
             [\<lparr>prod_id = ''rice'', prod_name = ''Rice'', prod_gtin = Some ''8901''\<rparr>,
              \<lparr>prod_id = ''salt'', prod_name = ''Salt'', prod_gtin = Some ''8902''\<rparr>]
             [stock ''b1'' ''rice'' 4 (2024, 1, 1), stock ''b2'' ''rice'' 2 (2024, 2, 1),
              stock ''b3'' ''salt'' 3 (2024, 3, 1)]
             []))"

definition fefo_example :: state where
  "fefo_example =
     session [\<lparr>prod_id = ''rice'', prod_name = ''Rice'', prod_gtin = Some ''8901''\<rparr>]
       [stock ''late'' ''rice'' 10 (2024, 2, 1), stock ''early'' ''rice'' 10 (2024, 1, 1)]
       [line ''rice'' ''Rice'' 15 20]"

definition offline_env :: env where
  "offline_env = shop_env\<lparr>fails := (\<lambda>h r. Some ''offline'')\<rparr>"

definition blocked_env :: env where
  "blocked_env = shop_env\<lparr>popup := False\<rparr>"


definition flaky_env :: env where
  "flaky_env =
     shop_env\<lparr>fails := (\<lambda>h r. case r of
                    BatchUpdate bid q st \<Rightarrow> if bid = ''b5'' then Some ''timeout'' else None
                  | _ \<Rightarrow> None)\<rparr>"

definition three_lines :: state where
  "three_lines =
     session []
       [stock ''b1'' ''rice'' 4 (2024, 1, 1), stock ''b2'' ''rice'' 2 (2024, 2, 1),
        stock ''b3'' ''salt'' 1 (2024, 3, 1), stock ''b5'' ''salt'' 4 (2024, 3, 15),
        stock ''b4'' ''milk'' 6 (2024, 4, 1)]
       [line ''rice'' ''Rice'' 5 6, line ''salt'' ''Salt'' 2 5, line ''milk'' ''Milk'' 1 6]"

definition shortfall_example :: state where
  "shortfall_example =
     session []
       [stock ''b1'' ''rice'' 4 (2024, 1, 1), stock ''b2'' ''rice'' 2 (2024, 2, 1)]
       [line ''rice'' ''Rice'' 15 20]"

definition dairy :: state where
  "dairy =
     session
       [\<lparr>prod_id = ''a'', prod_name = ''Milk A'', prod_gtin = None\<rparr>,
        \<lparr>prod_id = ''b'', prod_name = ''Milk B'', prod_gtin = Some ''8902''\<rparr>,
        \<lparr>prod_id = ''c'', prod_name = ''Milk C'', prod_gtin = Some ''8903''\<rparr>]
       [stock ''a1'' ''a'' 3 (2024, 5, 1), stock ''b1'' ''b'' 2 (2024, 6, 1),
        stock ''b2'' ''b'' 4 (2024, 7, 1),
        (stock ''c1'' ''c'' 0 (2024, 6, 1))\<lparr>status := ''sold_out''\<rparr>]
       []"

definition milk_A :: product where
  "milk_A = \<lparr>prod_id = ''a'', prod_name = ''Milk A'', prod_gtin = None\<rparr>"

definition milk_B :: product where
  "milk_B = \<lparr>prod_id = ''b'', prod_name = ''Milk B'', prod_gtin = Some ''8902''\<rparr>"

definition milk_C :: product where
  "milk_C = \<lparr>prod_id = ''c'', prod_name = ''Milk C'', prod_gtin = Some ''8903''\<rparr>"

section \<open>Evaluation and frame lemmas\<close>

lemmas query_defs =
  remote_def emit_def qualifying_def select_product_by_gtin_def select_products_ilike_def
  select_batches_probe_def select_batches_def rows_fefo_def select_batches_fefo_def
  update_batch_def
  write_batch_def truthy_def nonempty_def

lemmas resolver_defs =
  matchProduct_def fetchBatches_def availableQty_of_def unitPrice_of_def addToCart_def
  resolveScannedProductToCart_def

lemma two_scans_cart:
  "cart two_scans =
     [\<lparr>productId = ''rice'', gtin = Some ''8901'', name = ''Rice'', qty = 1, unitPrice = 30,
       availableQty = 6\<rparr>,
      \<lparr>productId = ''salt'', gtin = Some ''8902'', name = ''Salt'', qty = 1, unitPrice = 30,
       availableQty = 3\<rparr>]"
  by (simp add: two_scans_def shop_env_def session_def stock_def query_defs resolver_defs)

lemma two_scans_reachable: "reachable two_scans"
  unfolding two_scans_def
  by (intro reachable.scanned reachable.opened) (simp add: session_def)

subsection \<open>Every reachable cart has positive quantities and caps\<close>

lemma availableQty_of_sum: "availableQty_of bs = sum_list (map quantity bs)"
proof -
  have "foldl (\<lambda>sum b. sum + quantity b) a bs = a + sum_list (map quantity bs)" for a
    by (induction bs arbitrary: a) simp_all
  then show ?thesis by (simp add: availableQty_of_def)
qed

lemma cart_emit [simp]: "cart (emit ev s) = cart s"
  by (simp add: emit_def)

lemma cart_remote [simp]: "cart (snd (remote e r s)) = cart s"
  by (simp add: remote_def)

lemma select_batches_positive:
  "select_batches e pid dopt s = (Some bs, s') \<Longrightarrow> b \<in> set bs \<Longrightarrow> 0 < quantity b"
  by (auto simp: select_batches_def remote_def qualifying_def split: option.splits)

lemma select_batches_cart: "cart (snd (select_batches e pid dopt s)) = cart s"
  by (simp add: select_batches_def remote_def split: option.splits)

lemma fetchBatches_positive:
  "fetchBatches e ocr p s = (Some bs, s') \<Longrightarrow> b \<in> set bs \<Longrightarrow> 0 < quantity b"
  by (auto simp: fetchBatches_def split: prod.splits if_splits option.splits
           dest: select_batches_positive)

lemma fetchBatches_cart: "cart (snd (fetchBatches e ocr p s)) = cart s"
proof -
  obtain inv s1 where q1: "select_batches e (prod_id p) (expiryDate ocr) s = (inv, s1)"
    by (cases "select_batches e (prod_id p) (expiryDate ocr) s")
  obtain fb s2 where q2: "select_batches e (prod_id p) None s1 = (fb, s2)"
    by (cases "select_batches e (prod_id p) None s1")
  have "cart s1 = cart s" "cart s2 = cart s1"
    using select_batches_cart[of e "prod_id p" "expiryDate ocr" s]
      select_batches_cart[of e "prod_id p" None s1] q1 q2 by simp_all
  then show ?thesis using q1 q2 by (cases fb) (simp_all add: fetchBatches_def)
qed

lemma select_product_by_gtin_cart: "cart (snd (select_product_by_gtin e g s)) = cart s"
  by (simp add: select_product_by_gtin_def remote_def split: option.splits list.splits)

lemma select_products_ilike_cart: "cart (snd (select_products_ilike e q s)) = cart s"
  by (simp add: select_products_ilike_def remote_def split: option.splits)

lemma select_batches_probe_cart: "cart (snd (select_batches_probe e pid d s)) = cart s"
  by (simp add: select_batches_probe_def remote_def split: option.splits)

lemma probeCandidates_cart: "cart (snd (probeCandidates e d ps s)) = cart s"
proof (induction ps arbitrary: s)
  case Nil
  then show ?case by simp
next
  case (Cons p ps)
  show ?case
    using Cons.IH select_batches_probe_cart[of e "prod_id p" d s]
    by (auto split: prod.splits)
qed

lemma matchProduct_cart: "cart (snd (matchProduct e ocr s)) = cart s"
proof -
  have g: "cart s1 = cart s" if "select_product_by_gtin e g s = (r, s1)" for g r s1
    using select_product_by_gtin_cart[of e g s] that by simp
  have n: "cart s2 = cart s1" if "select_products_ilike e q s1 = (r, s2)" for q r s1 s2
    using select_products_ilike_cart[of e q s1] that by simp
  have c: "cart s3 = cart s2" if "probeCandidates e d ps s2 = (r, s3)" for d ps r s2 s3
    using probeCandidates_cart[of e d ps s2] that by simp
  show ?thesis
    unfolding matchProduct_def
    by (auto simp del: probeCandidates.simps
             split: option.splits prod.splits list.splits if_splits dest!: g n c)
qed

lemma addToCart_ok:
  assumes "cart_ok (cart s)" "\<forall>b \<in> set (firstBatch # others). 0 < quantity b"
  shows "cart_ok (cart (addToCart ocr p firstBatch (firstBatch # others) s))"
proof -
  have "0 \<le> sum_list (map quantity others)"
    using assms(2) by (intro sum_list_nonneg) auto
  then have "1 \<le> availableQty_of (firstBatch # others)"
    using assms(2) by (simp add: availableQty_of_sum) 
  then show ?thesis
    using assms(1)
    by (auto simp: addToCart_def cart_ok_def split: option.splits)
qed

lemma resolve_ok:
  assumes "cart_ok (cart s)"
  shows "cart_ok (cart (resolveScannedProductToCart e ocr s))"
proof (cases "matchProduct e ocr s")
  case (Pair pd s1)
  have c1: "cart s1 = cart s" using matchProduct_cart[of e ocr s] Pair by simp
  show ?thesis
  proof (cases pd)
    case None
    then show ?thesis using Pair c1 assms by (simp add: resolveScannedProductToCart_def)
  next
    case (Some p)
    obtain bs s2 where f: "fetchBatches e ocr p s1 = (bs, s2)" by (cases "fetchBatches e ocr p s1")
    have c2: "cart s2 = cart s" using fetchBatches_cart[of e ocr p s1] f c1 by simp
    show ?thesis
    proof (cases bs)
      case None
      then show ?thesis using Pair Some f c2 assms by (simp add: resolveScannedProductToCart_def)
    next
      case (Some rows)
      note rows = this
      show ?thesis
      proof (cases rows)
        case Nil
        then show ?thesis
          using Pair \<open>pd = Some p\<close> f rows c2 assms by (simp add: resolveScannedProductToCart_def)
      next
        case (Cons firstBatch others)
        have "\<forall>b \<in> set (firstBatch # others). 0 < quantity b"
          using fetchBatches_positive[of e ocr p s1 rows s2] f rows Cons by simp
        then have "cart_ok (cart (addToCart ocr p firstBatch (firstBatch # others) s2))"
          using addToCart_ok c2 assms by simp
        then show ?thesis
          using Pair \<open>pd = Some p\<close> f rows Cons by (simp add: resolveScannedProductToCart_def)
      qed
    qed
  qed
qed

lemma changeQty_ok: "cart_ok (cart s) \<Longrightarrow> cart_ok (cart (changeQty pid n s))"
  by (auto simp: cart_ok_def changeQty_def changeQtyItem_def)

lemma removeItem_ok: "cart_ok (cart s) \<Longrightarrow> cart_ok (cart (removeItem pid s))"
  by (auto simp: cart_ok_def removeItem_def)

lemma reachable_cart_ok: "reachable s \<Longrightarrow> cart_ok (cart s)"
proof (induction rule: reachable.induct)
  case (opened s)
  then show ?case by (simp add: cart_ok_def)
next
  case (other s s')
  then show ?case by simp
next
  case (scanned s e ocr)
  then show ?case by (simp add: resolve_ok)
next
  case (edited s pid n)
  then show ?case by (simp add: changeQty_ok)
next
  case (removed s pid)
  then show ?case by (simp add: removeItem_ok)
qed

section \<open>Cart manager\<close>

lemma changeQtyItem_fields:
  "productId (changeQtyItem pid n item) = productId item"
  "availableQty (changeQtyItem pid n item) = availableQty item"
  by (simp_all add: changeQtyItem_def)

lemma changeQtyItem_qty:
  "qty (changeQtyItem pid n item) =
     (if productId item = pid then
        (if 0 < n \<and> n \<le> availableQty item then n
         else if availableQty item < n then availableQty item
         else qty item)
      else qty item)"
  by (simp add: changeQtyItem_def)

lemma changeQtyItem_keeps_cap:
  "qty item \<le> availableQty item \<Longrightarrow>
   qty (changeQtyItem pid n item) \<le> availableQty (changeQtyItem pid n item)"
  by (simp add: changeQtyItem_def)

text \<open>
  Claim C7. For a line of the product being edited, \<open>changeQty\<close> stores the requested
  quantity \<open>n\<close> when \<open>0 < n \<le> availableQty\<close>, and the stored quantity equals \<open>n\<close>
  only in that case (or when it was \<open>n\<close> already); when \<open>n > availableQty\<close> it stores
  \<open>availableQty\<close> and raises the "Not enough stock" warning. The cap itself is never
  changed, and a cart in which no quantity exceeds its cap stays such a cart under both
  mutations of the cart manager, \<open>changeQty\<close> and \<open>removeItem\<close>.
\<close>

theorem changeQty_respects_cap:
  "length (cart (changeQty pid n s)) = length (cart s) \<and>
   (\<forall>i < length (cart s).
      let old = cart s ! i; new = cart (changeQty pid n s) ! i in
        productId new = productId old \<and> availableQty new = availableQty old \<and>
        (productId old = pid \<longrightarrow>
           (0 < n \<and> n \<le> availableQty old \<longrightarrow> qty new = n) \<and>
           (availableQty old < n \<longrightarrow>
              qty new = availableQty old \<and>
              Toast (NotEnoughStock (availableQty old))
                \<in> set (drop (length (trace s)) (trace (changeQty pid n s)))) \<and>
           (qty new = n \<longrightarrow> (0 < n \<and> n \<le> availableQty old) \<or> qty old = n) \<and>
           (0 < n \<longrightarrow> qty new \<le> availableQty new))) \<and>
   ((\<forall>item \<in> set (cart s). qty item \<le> availableQty item) \<longrightarrow>
    (\<forall>item \<in> set (cart (changeQty pid n s)). qty item \<le> availableQty item) \<and>
    (\<forall>item \<in> set (cart (removeItem pid s)). qty item \<le> availableQty item))"
proof -
  have len: "length (cart (changeQty pid n s)) = length (cart s)"
    by (simp add: changeQty_def)
  have tr: "drop (length (trace s)) (trace (changeQty pid n s))
              = concat (map (changeQtyToasts pid n) (cart s))"
    by (simp add: changeQty_def)
  have line: "let old = cart s ! i; new = cart (changeQty pid n s) ! i in
        productId new = productId old \<and> availableQty new = availableQty old \<and>
        (productId old = pid \<longrightarrow>
           (0 < n \<and> n \<le> availableQty old \<longrightarrow> qty new = n) \<and>
           (availableQty old < n \<longrightarrow>
              qty new = availableQty old \<and>
              Toast (NotEnoughStock (availableQty old))
                \<in> set (drop (length (trace s)) (trace (changeQty pid n s)))) \<and>
           (qty new = n \<longrightarrow> (0 < n \<and> n \<le> availableQty old) \<or> qty old = n) \<and>
           (0 < n \<longrightarrow> qty new \<le> availableQty new))"
    if i: "i < length (cart s)" for i
  proof -
    have new: "cart (changeQty pid n s) ! i = changeQtyItem pid n (cart s ! i)"
      using i by (simp add: changeQty_def)
    have mem: "cart s ! i \<in> set (cart s)" using i by simp
    have warn: "Toast (NotEnoughStock (availableQty (cart s ! i)))
                  \<in> set (concat (map (changeQtyToasts pid n) (cart s)))"
      if "productId (cart s ! i) = pid" "availableQty (cart s ! i) < n"
      using that mem by (auto simp: changeQtyToasts_def intro!: bexI[of _ "cart s ! i"])
    show ?thesis
      unfolding Let_def new tr
      using warn by (simp add: changeQtyItem_fields changeQtyItem_qty)
  qed
  have inv: "qty item \<le> availableQty item"
    if "\<forall>item \<in> set (cart s). qty item \<le> availableQty item"
      and "item \<in> set (cart (changeQty pid n s))" for item
  proof -
    from that(2) obtain old where "old \<in> set (cart s)" "item = changeQtyItem pid n old"
      by (auto simp: changeQty_def)
    with that(1) show ?thesis by (simp add: changeQtyItem_keeps_cap)
  qed
  have rem: "qty item \<le> availableQty item"
    if "\<forall>item \<in> set (cart s). qty item \<le> availableQty item"
      and "item \<in> set (cart (removeItem pid s))" for item
    using that by (simp add: removeItem_def)
  have lines: "\<forall>i < length (cart s).
      let old = cart s ! i; new = cart (changeQty pid n s) ! i in
        productId new = productId old \<and> availableQty new = availableQty old \<and>
        (productId old = pid \<longrightarrow>
           (0 < n \<and> n \<le> availableQty old \<longrightarrow> qty new = n) \<and>
           (availableQty old < n \<longrightarrow>
              qty new = availableQty old \<and>
              Toast (NotEnoughStock (availableQty old))
                \<in> set (drop (length (trace s)) (trace (changeQty pid n s)))) \<and>
           (qty new = n \<longrightarrow> (0 < n \<and> n \<le> availableQty old) \<or> qty old = n) \<and>
           (0 < n \<longrightarrow> qty new \<le> availableQty new))"
    using line by (intro allI impI)
  have kept: "(\<forall>item \<in> set (cart s). qty item \<le> availableQty item) \<longrightarrow>
    (\<forall>item \<in> set (cart (changeQty pid n s)). qty item \<le> availableQty item) \<and>
    (\<forall>item \<in> set (cart (removeItem pid s)). qty item \<le> availableQty item)"
    using inv rem by (intro impI conjI ballI)
  show ?thesis by (rule conjI[OF len conjI[OF lines kept]])
qed

text \<open>
  A cart of two scanned lines, rice with cap 6 and salt with cap 3: asking for 9 units of
  rice stores 6 and warns, asking for 5 stores 5, and the cap holds before and after.
\<close>

theorem changeQty_respects_cap_witness:
  "list_all (\<lambda>item. qty item \<le> availableQty item) (cart two_scans) \<and>
   list_all (\<lambda>item. qty item \<le> availableQty item) (cart (changeQty ''rice'' 9 two_scans)) \<and>
   list_all (\<lambda>item. qty item \<le> availableQty item) (cart (removeItem ''rice'' two_scans)) \<and>
   qty (cart (changeQty ''rice'' 9 two_scans) ! 0) = 6 \<and>
   qty (cart (changeQty ''rice'' 5 two_scans) ! 0) = 5 \<and>
   Toast (NotEnoughStock 6) \<in> set (trace (changeQty ''rice'' 9 two_scans))"
proof -
  note nine = changeQty_respects_cap[of "''rice''" 9 two_scans]
  note five = changeQty_respects_cap[of "''rice''" 5 two_scans]
  have before: "\<forall>item \<in> set (cart two_scans). qty item \<le> availableQty item"
    by (simp add: two_scans_cart)
  have after: "(\<forall>item \<in> set (cart (changeQty ''rice'' 9 two_scans)). qty item \<le> availableQty item) \<and>
    (\<forall>item \<in> set (cart (removeItem ''rice'' two_scans)). qty item \<le> availableQty item)"
    by (rule mp[OF nine[THEN conjunct2, THEN conjunct2] before])
  have first: "0 < length (cart two_scans)" "productId (cart two_scans ! 0) = ''rice''"
    "availableQty (cart two_scans ! 0) = 6"
    by (simp_all add: two_scans_cart)
  have "qty (cart (changeQty ''rice'' 9 two_scans) ! 0) = 6 \<and>
        Toast (NotEnoughStock 6)
          \<in> set (drop (length (trace two_scans)) (trace (changeQty ''rice'' 9 two_scans)))"
    using spec[OF nine[THEN conjunct2, THEN conjunct1], of 0] first
    by (simp add: Let_def)
  then have clamp: "qty (cart (changeQty ''rice'' 9 two_scans) ! 0) = 6"
    and warn: "Toast (NotEnoughStock 6) \<in> set (trace (changeQty ''rice'' 9 two_scans))"
    by (auto dest: in_set_dropD)
  have accept: "qty (cart (changeQty ''rice'' 5 two_scans) ! 0) = 5"
    using spec[OF five[THEN conjunct2, THEN conjunct1], of 0] first
    by (simp add: Let_def)
  show ?thesis
    using before after clamp warn accept by (simp add: list_all_iff)
qed

text \<open>
  Claim C10. In every cart a session can hold, a requested quantity \<open>n \<le> 0\<close> changes
  nothing at all: no line is edited, clamped or removed and no warning is raised. And
  whatever \<open>n\<close> is, the lines of other products are left as they were.
\<close>

theorem changeQty_nonpositive_frame:
  "(reachable s \<and> n \<le> 0 \<longrightarrow> changeQty pid n s = s) \<and>
   (\<forall>i < length (cart s).
      productId (cart s ! i) \<noteq> pid \<longrightarrow> cart (changeQty pid n s) ! i = cart s ! i)"
proof -
  have noop: "changeQty pid n s = s" if "reachable s" "n \<le> 0"
  proof -
    have ok: "\<forall>item \<in> set (cart s). 1 \<le> availableQty item"
      using reachable_cart_ok[OF that(1)] by (simp add: cart_ok_def)
    have "changeQtyItem pid n item = item" if "item \<in> set (cart s)" for item
      using ok that \<open>n \<le> 0\<close> by (auto simp: changeQtyItem_def)
    then have m: "map (changeQtyItem pid n) (cart s) = cart s"
      by (simp add: map_idI)
    have "changeQtyToasts pid n item = []" if "item \<in> set (cart s)" for item
      using ok that \<open>n \<le> 0\<close> by (auto simp: changeQtyToasts_def)
    then have t: "concat (map (changeQtyToasts pid n) (cart s)) = []"
      by simp
    show ?thesis by (simp add: changeQty_def m t)
  qed
  have frame: "cart (changeQty pid n s) ! i = cart s ! i"
    if "i < length (cart s)" "productId (cart s ! i) \<noteq> pid" for i
    using that by (simp add: changeQty_def changeQtyItem_def)
  from noop frame show ?thesis by blast
qed

text \<open>
  The same cart, reached by two scans: asking for -2 units of rice changes nothing, and
  asking for 9 leaves the salt line as it was.
\<close>

theorem changeQty_nonpositive_frame_witness:
  "reachable two_scans \<and> (-2::int) \<le> 0 \<and> changeQty ''rice'' (-2) two_scans = two_scans \<and>
   1 < length (cart two_scans) \<and> productId (cart two_scans ! 1) \<noteq> ''rice'' \<and>
   cart (changeQty ''rice'' 9 two_scans) ! 1 = cart two_scans ! 1"
  using changeQty_nonpositive_frame[of two_scans "-2" "''rice''"]
    changeQty_nonpositive_frame[of two_scans 9 "''rice''"]
    two_scans_reachable
  by (simp add: two_scans_cart)

section \<open>Checkout\<close>

subsection \<open>The deduction loop without failures\<close>

lemma remote_reliable: "reliable e \<Longrightarrow> remote e r s = (None, emit (Remote r) s)"
  by (simp add: remote_def reliable_def)

lemma update_batch_reliable:
  "reliable e \<Longrightarrow>
   update_batch e bid q st s =
     (None, (emit (Remote (BatchUpdate bid q st)) s)
              \<lparr>inventory_batches := write_batch bid q st (inventory_batches s)\<rparr>)"
  by (simp add: update_batch_def remote_reliable emit_def)

lemma deductBatches_no_error:
  "reliable e \<Longrightarrow> fst (deductBatches e item n bs s) = None"
  by (induction bs arbitrary: n s) (simp_all add: update_batch_reliable Let_def)

lemma fefo_spec_ids [simp]: "map batch_id (fefo_spec n bs) = map batch_id bs"
  by (induction bs arbitrary: n) (simp_all add: Let_def)

lemma fefo_spec_length [simp]: "length (fefo_spec n bs) = length bs"
  by (induction bs arbitrary: n) (simp_all add: Let_def)

lemma fefo_spec_zero: "\<forall>b \<in> set bs. 0 < quantity b \<Longrightarrow> fefo_spec 0 bs = bs"
  by (induction bs) (simp_all add: Let_def)

lemma find_id_None: "k \<notin> batch_id ` set xs \<Longrightarrow> find (\<lambda>b. batch_id b = k) xs = None"
  by (induction xs) auto

lemma replace_rows_same:
  assumes "\<forall>r \<in> set rows. \<forall>b \<in> set bs. batch_id r = batch_id b \<longrightarrow> r = b"
  shows "replace_rows bs rows = rows"
proof -
  have "(case find (\<lambda>b. batch_id b = batch_id r) bs of Some b \<Rightarrow> b | None \<Rightarrow> r) = r"
    if "r \<in> set rows" for r
  proof (cases "find (\<lambda>b. batch_id b = batch_id r) bs")
    case None
    then show ?thesis by simp
  next
    case (Some b)
    then have "b \<in> set bs" "batch_id b = batch_id r"
      by (auto simp: find_Some_iff)
    with assms that have "r = b" by auto
    with Some show ?thesis by simp
  qed
  then show ?thesis by (simp add: replace_rows_def map_idI)
qed

lemma deductBatches_rows:
  assumes "reliable e" "0 \<le> n"
    "\<forall>b \<in> set bs. 0 < quantity b \<and> status b = ''active''"
    "distinct (map batch_id bs)"
    "\<forall>r \<in> set (inventory_batches s). \<forall>b \<in> set bs. batch_id r = batch_id b \<longrightarrow> r = b"
  shows "inventory_batches (snd (deductBatches e item n bs s))
           = replace_rows (fefo_spec n bs) (inventory_batches s)"
  using assms(2-)
proof (induction bs arbitrary: n s)
  case Nil
  then show ?case by (simp add: replace_rows_def)
next
  case (Cons b bs)
  show ?case
  proof (cases "n = 0")
    case True
    have "fefo_spec 0 (b # bs) = b # bs"
      using Cons.prems(2) by (intro fefo_spec_zero) auto
    then show ?thesis
      using True Cons.prems(4) by (simp add: replace_rows_same)
  next
    case False
    define taken where "taken = min n (quantity b)"
    define left where "left = quantity b - taken"
    define st where "st = (if left = 0 then ''sold_out'' else ''active'')"
    define s' where "s' = (emit (Remote (BatchUpdate (batch_id b) left st)) s)
              \<lparr>inventory_batches := write_batch (batch_id b) left st (inventory_batches s)\<rparr>"
    have step: "deductBatches e item n (b # bs) s = deductBatches e item (n - taken) bs s'"
      using False assms(1)
      by (simp add: update_batch_reliable Let_def taken_def left_def st_def s'_def)
    have rows': "inventory_batches s' = write_batch (batch_id b) left st (inventory_batches s)"
      by (simp add: s'_def emit_def)
    have nonneg: "0 \<le> n - taken" using Cons.prems(1) by (simp add: taken_def)
    have notin: "batch_id b \<notin> batch_id ` set bs" using Cons.prems(3) by simp
    have inv': "\<forall>r \<in> set (inventory_batches s'). \<forall>b' \<in> set bs. batch_id r = batch_id b' \<longrightarrow> r = b'"
      using Cons.prems(4) notin by (auto simp: rows' write_batch_def)
    have IH: "inventory_batches (snd (deductBatches e item (n - taken) bs s'))
           = replace_rows (fefo_spec (n - taken) bs) (inventory_batches s')"
      using Cons.IH[OF nonneg _ _ inv'] Cons.prems(2,3) by simp
    have act: "status b = ''active''" using Cons.prems(2) by simp
    have none: "find (\<lambda>x. batch_id x = batch_id b) (fefo_spec (n - taken) bs) = None"
      using notin by (intro find_id_None) (metis fefo_spec_ids set_map)
    have row: "(case find (\<lambda>x. batch_id x = batch_id (if batch_id r = batch_id b then r\<lparr>quantity := left, status := st\<rparr> else r))
                     (fefo_spec (n - taken) bs) of Some x \<Rightarrow> x
                | None \<Rightarrow> (if batch_id r = batch_id b then r\<lparr>quantity := left, status := st\<rparr> else r))
             = (case find (\<lambda>x. batch_id x = batch_id r) (fefo_spec n (b # bs)) of Some x \<Rightarrow> x | None \<Rightarrow> r)"
      if "r \<in> set (inventory_batches s)" for r
    proof (cases "batch_id r = batch_id b")
      case True
      then have "r = b" using Cons.prems(4) that by simp
      moreover have "left = 0 \<longleftrightarrow> quantity b = taken" by (simp add: left_def)
      ultimately show ?thesis
        using none act by (simp add: Let_def taken_def[symmetric] left_def[symmetric] st_def)
    next
      case False
      then have "batch_id b \<noteq> batch_id r" by simp
      then show ?thesis
        using False by (simp add: Let_def taken_def[symmetric] left_def[symmetric])
    qed
    show ?thesis
      unfolding step IH rows'
      unfolding replace_rows_def write_batch_def
      using row by (simp add: comp_def)
  qed
qed

lemma sum_quantity_nonneg: "\<forall>b \<in> set bs. 0 < quantity b \<Longrightarrow> 0 \<le> sum_list (map quantity bs)"
  by (intro sum_list_nonneg) auto




lemma fefo_spec_status:
  "0 \<le> n \<Longrightarrow> \<forall>b \<in> set bs. 0 < quantity b \<and> status b = ''active'' \<Longrightarrow>
   b' \<in> set (fefo_spec n bs) \<Longrightarrow>
   (status b' = ''sold_out'' \<longleftrightarrow> quantity b' = 0) \<and> (status b' = ''active'' \<longleftrightarrow> 0 < quantity b')"
proof (induction bs arbitrary: n)
  case Nil
  then show ?case by simp
next
  case (Cons b bs)
  have nn: "0 \<le> n - min n (quantity b)" using Cons.prems(1) by simp
  show ?case
    using Cons.IH[OF nn] Cons.prems
    by (auto simp: Let_def min_def split: if_splits)
qed

lemma fefo_spec_shortfall:
  "sum_list (map quantity bs) \<le> n \<Longrightarrow> \<forall>b \<in> set bs. 0 < quantity b \<Longrightarrow>
   fefo_spec n bs = map (\<lambda>b. b\<lparr>quantity := 0, status := ''sold_out''\<rparr>) bs"
proof (induction bs arbitrary: n)
  case Nil
  then show ?case by simp
next
  case (Cons b bs)
  have pos: "\<forall>b \<in> set bs. 0 < quantity b" using Cons.prems(2) by simp
  have q: "quantity b \<le> n" using Cons.prems(1) sum_quantity_nonneg[OF pos] by simp
  have "sum_list (map quantity bs) \<le> n - quantity b" using Cons.prems(1) by simp
  moreover have "min n (quantity b) = quantity b" using q by simp
  ultimately show ?case using Cons.IH[OF _ pos, of "n - quantity b"] by (simp add: Let_def)
qed

lemma rows_fefo_set: "set (rows_fefo e pid rows) = {r \<in> set rows. qualifying e pid r}"
  by (auto simp: rows_fefo_def)


lemma rows_fefo_distinct:
  "distinct (map batch_id rows) \<Longrightarrow> distinct (map batch_id (rows_fefo e pid rows))"
  by (auto simp: rows_fefo_def distinct_map intro: inj_on_subset)

lemma rows_fefo_consistent:
  "distinct (map batch_id rows) \<Longrightarrow> r \<in> set rows \<Longrightarrow> b \<in> set (rows_fefo e pid rows) \<Longrightarrow>
   batch_id r = batch_id b \<Longrightarrow> r = b"
  by (auto simp: rows_fefo_set distinct_map dest: inj_onD)

lemma rows_fefo_active:
  "b \<in> set (rows_fefo e pid rows) \<Longrightarrow> 0 < quantity b \<and> status b = ''active''"
  by (simp add: rows_fefo_set qualifying_def)

lemma deductItem_reliable:
  "reliable e \<Longrightarrow>
   deductItem e item s =
     deductBatches e item (qty item) (rows_fefo e (productId item) (inventory_batches s))
       (emit (Remote (BatchesFEFO (productId item))) s)"
  by (simp add: deductItem_def select_batches_fefo_def remote_reliable emit_def)

lemma deductItem_no_error: "reliable e \<Longrightarrow> fst (deductItem e item s) = None"
  by (simp add: deductItem_reliable deductBatches_no_error)

lemma deductItem_rows:
  assumes "reliable e" "distinct (map batch_id (inventory_batches s))" "0 \<le> qty item"
  shows "inventory_batches (snd (deductItem e item s))
           = replace_rows (fefo_spec (qty item) (rows_fefo e (productId item) (inventory_batches s)))
               (inventory_batches s)"
proof -
  let ?bs = "rows_fefo e (productId item) (inventory_batches s)"
  let ?s1 = "emit (Remote (BatchesFEFO (productId item))) s"
  have rows: "inventory_batches ?s1 = inventory_batches s" by (simp add: emit_def)
  have "inventory_batches (snd (deductBatches e item (qty item) ?bs ?s1))
          = replace_rows (fefo_spec (qty item) ?bs) (inventory_batches ?s1)"
  proof (rule deductBatches_rows[OF assms(1) assms(3)])
    show "\<forall>b \<in> set ?bs. 0 < quantity b \<and> status b = ''active''"
      using rows_fefo_active by blast
    show "distinct (map batch_id ?bs)"
      using assms(2) by (rule rows_fefo_distinct)
    show "\<forall>r \<in> set (inventory_batches ?s1). \<forall>b \<in> set ?bs. batch_id r = batch_id b \<longrightarrow> r = b"
      unfolding rows using rows_fefo_consistent[OF assms(2)] by blast
  qed
  then show ?thesis by (simp add: deductItem_reliable[OF assms(1)] rows)
qed

lemma write_batch_ids [simp]: "map batch_id (write_batch bid q st rows) = map batch_id rows"
  by (simp add: write_batch_def comp_def if_distrib[of batch_id] cong: if_cong)

lemma update_batch_ids:
  "map batch_id (inventory_batches (snd (update_batch e bid q st s)))
     = map batch_id (inventory_batches s)"
  by (simp add: update_batch_def remote_def emit_def split: option.splits)

lemma deductBatches_ids:
  "map batch_id (inventory_batches (snd (deductBatches e item n bs s)))
     = map batch_id (inventory_batches s)"
proof (induction bs arbitrary: n s)
  case Nil
  then show ?case by simp
next
  case (Cons b bs)
  show ?case
  proof (cases "n = 0")
    case True
    then show ?thesis by simp
  next
    case False
    let ?left = "quantity b - min n (quantity b)"
    let ?st = "if ?left = 0 then ''sold_out'' else ''active''"
    obtain err s' where u: "update_batch e (batch_id b) ?left ?st s = (err, s')"
      by (cases "update_batch e (batch_id b) ?left ?st s")
    have ids: "map batch_id (inventory_batches s') = map batch_id (inventory_batches s)"
      using update_batch_ids[of e "batch_id b" ?left ?st s] u by simp
    show ?thesis
    proof (cases err)
      case None
      then show ?thesis using False u ids Cons.IH[of "n - min n (quantity b)" s']
        by (simp add: Let_def)
    next
      case (Some a)
      then show ?thesis using False u ids by (simp add: Let_def emit_def)
    qed
  qed
qed

lemma deductItem_ids:
  "map batch_id (inventory_batches (snd (deductItem e item s)))
     = map batch_id (inventory_batches s)"
  by (simp add: deductItem_def select_batches_fefo_def remote_def emit_def deductBatches_ids
           split: option.splits)

lemma deductCart_ids:
  "map batch_id (inventory_batches (snd (deductCart e items s)))
     = map batch_id (inventory_batches s)"
proof (induction items arbitrary: s)
  case Nil
  then show ?case by simp
next
  case (Cons item items)
  obtain r s1 where d: "deductItem e item s = (r, s1)" by (cases "deductItem e item s")
  have "map batch_id (inventory_batches s1) = map batch_id (inventory_batches s)"
    using deductItem_ids[of e item s] d by simp
  then show ?case using d Cons.IH[of s1] by (cases r) simp_all
qed

lemma deductCart_append:
  "fst (deductCart e pre s) = None \<Longrightarrow>
   deductCart e (pre @ rest) s = deductCart e rest (snd (deductCart e pre s))"
proof (induction pre arbitrary: s)
  case Nil
  then show ?case by simp
next
  case (Cons item pre)
  obtain r s1 where d: "deductItem e item s = (r, s1)" by (cases "deductItem e item s")
  show ?case using Cons d by (cases r) simp_all
qed

lemma deductCart_no_error: "reliable e \<Longrightarrow> fst (deductCart e items s) = None"
proof (induction items arbitrary: s)
  case Nil
  then show ?case by simp
next
  case (Cons item items)
  obtain r s1 where d: "deductItem e item s = (r, s1)" by (cases "deductItem e item s")
  then have "r = None" using deductItem_no_error[OF Cons.prems, of item s] by simp
  then show ?case using d Cons by simp
qed

lemma checkout_start_rows [simp]: "inventory_batches (checkout_start e s) = inventory_batches s"
  by (simp add: checkout_start_def generateReceiptHtml_def emit_def Let_def)

lemmas checkout_defs =
  checkout_start_def generateReceiptHtml_def receipt_of_def subtotal_def deductItem_def
  finalizeCheckout_def


subsection \<open>The events of a checkout\<close>

lemma trace_emit [simp]: "trace (emit ev s) = trace s @ [ev]"
  by (simp add: emit_def)

lemma checkout_start_trace:
  "trace (checkout_start e s) =
     trace s @ WindowOpen # (if popup e then [ReceiptWritten (receipt_of e (cart s))] else [])"
  by (simp add: checkout_start_def generateReceiptHtml_def Let_def)

subsection \<open>What the deduction leaves alone\<close>

lemma emit_frame [simp]:
  "isOpen (emit ev s) = isOpen s" "inventory_batches (emit ev s) = inventory_batches s"
  by (simp_all add: emit_def)

lemma update_batch_frame:
  "cart (snd (update_batch e bid q st s)) = cart s \<and>
   isOpen (snd (update_batch e bid q st s)) = isOpen s"
  by (simp add: update_batch_def remote_def split: option.splits)

lemma deductBatches_frame:
  "cart (snd (deductBatches e item n bs s)) = cart s \<and>
   isOpen (snd (deductBatches e item n bs s)) = isOpen s"
proof (induction bs arbitrary: n s)
  case Nil
  then show ?case by simp
next
  case (Cons b bs)
  show ?case
  proof (cases "n = 0")
    case True
    then show ?thesis by simp
  next
    case False
    let ?left = "quantity b - min n (quantity b)"
    let ?st = "if ?left = 0 then ''sold_out'' else ''active''"
    obtain err s' where u: "update_batch e (batch_id b) ?left ?st s = (err, s')"
      by (cases "update_batch e (batch_id b) ?left ?st s")
    have f: "cart s' = cart s \<and> isOpen s' = isOpen s"
      using update_batch_frame[of e "batch_id b" ?left ?st s] u by simp
    show ?thesis
    proof (cases err)
      case None
      then show ?thesis
        using False u f Cons.IH[of "n - min n (quantity b)" s'] by (simp add: Let_def)
    next
      case (Some a)
      then show ?thesis using False u f by (simp add: Let_def)
    qed
  qed
qed

lemma deductItem_frame:
  "cart (snd (deductItem e item s)) = cart s \<and> isOpen (snd (deductItem e item s)) = isOpen s"
  using deductBatches_frame[of e item "qty item"
      "rows_fefo e (productId item) (inventory_batches s)"
      "emit (Remote (BatchesFEFO (productId item))) s"]
  by (simp add: deductItem_def select_batches_fefo_def remote_def split: option.splits)

lemma deductCart_frame:
  "cart (snd (deductCart e items s)) = cart s \<and> isOpen (snd (deductCart e items s)) = isOpen s"
proof (induction items arbitrary: s)
  case Nil
  then show ?case by simp
next
  case (Cons item items)
  obtain r s1 where d: "deductItem e item s = (r, s1)" by (cases "deductItem e item s")
  have "cart s1 = cart s \<and> isOpen s1 = isOpen s"
    using deductItem_frame[of e item s] d by simp
  then show ?case using d Cons.IH[of s1] by (cases r) simp_all
qed

lemma checkout_start_frame [simp]:
  "cart (checkout_start e s) = cart s" "isOpen (checkout_start e s) = isOpen s"
  by (simp_all add: checkout_start_def generateReceiptHtml_def Let_def)

subsection \<open>The steps of the deduction\<close>


lemma needed_Nil [simp]: "needed n [] = 0"
  by (simp add: needed_def)

lemma needed_nonpos: "n \<le> 0 \<Longrightarrow> needed n bs = 0"
  by (cases bs) (simp_all add: needed_def upt_conv_Cons del: upt_Suc)

lemma needed_Cons:
  assumes "0 < n"
  shows "needed n (b # bs) = Suc (needed (n - min n (quantity b)) bs)"
proof -
  let ?P = "\<lambda>i. sum_list (map quantity (take i (b # bs))) < n"
  let ?Q = "\<lambda>i. sum_list (map quantity (take i bs)) < n - min n (quantity b)"
  have up: "[0..<length (b # bs)] = 0 # map Suc [0..<length bs]"
    by (simp add: upt_conv_Cons map_Suc_upt del: upt_Suc)
  have "takeWhile ?P (0 # map Suc [0..<length bs])
          = 0 # map Suc (takeWhile (?P \<circ> Suc) [0..<length bs])"
    using assms by (simp add: takeWhile_map)
  moreover have "length (takeWhile (?P \<circ> Suc) [0..<length bs])
                   = length (takeWhile ?Q [0..<length bs])"
  proof (cases "quantity b \<le> n")
    case True
    then have "(?P \<circ> Suc) = ?Q" by (auto simp: fun_eq_iff min_def)
    then show ?thesis by simp
  next
    case False
    then have "takeWhile (?P \<circ> Suc) [0..<length bs] = []" "takeWhile ?Q [0..<length bs] = []"
      by (cases bs; simp add: upt_conv_Cons del: upt_Suc)+
    then show ?thesis by simp
  qed
  ultimately show ?thesis unfolding needed_def up by simp
qed


lemma update_batch_ok:
  "fails e (trace s) (BatchUpdate bid q st) = None \<Longrightarrow>
   update_batch e bid q st s =
     (None, (emit (Remote (BatchUpdate bid q st)) s)
              \<lparr>inventory_batches := write_batch bid q st (inventory_batches s)\<rparr>)"
  by (simp add: update_batch_def remote_def emit_def)

lemma update_batch_failed:
  "fails e (trace s) (BatchUpdate bid q st) = Some err \<Longrightarrow>
   update_batch e bid q st s = (Some err, emit (Remote (BatchUpdate bid q st)) s)"
  by (simp add: update_batch_def remote_def)

lemma deductBatches_ok:
  assumes "deductBatches e item n bs s = (None, s')" "0 \<le> n"
    "\<forall>b \<in> set bs. 0 < quantity b \<and> status b = ''active''"
    "distinct (map batch_id bs)"
    "\<forall>r \<in> set (inventory_batches s). \<forall>b \<in> set bs. batch_id r = batch_id b \<longrightarrow> r = b"
  shows "inventory_batches s' = replace_rows (fefo_spec n bs) (inventory_batches s) \<and>
         trace s' = trace s @ map update_of (take (needed n bs) (fefo_spec n bs))"
  using assms
proof (induction bs arbitrary: n s)
  case Nil
  then show ?case by (simp add: replace_rows_def)
next
  case (Cons b bs)
  show ?case
  proof (cases "n = 0")
    case True
    have "fefo_spec 0 (b # bs) = b # bs"
      using Cons.prems(3) by (intro fefo_spec_zero) auto
    then show ?thesis
      using True Cons.prems(1,5) by (simp add: replace_rows_same needed_nonpos)
  next
    case False
    then have npos: "0 < n" using Cons.prems(2) by simp
    define taken where "taken = min n (quantity b)"
    define left where "left = quantity b - taken"
    define st where "st = (if left = 0 then ''sold_out'' else ''active'')"
    define s1 where "s1 = (emit (Remote (BatchUpdate (batch_id b) left st)) s)
              \<lparr>inventory_batches := write_batch (batch_id b) left st (inventory_batches s)\<rparr>"
    have unfold: "deductBatches e item n (b # bs) s =
        (case update_batch e (batch_id b) left st s of
           (Some err, s') \<Rightarrow>
             (Some (''Failed to update inventory for '' @ name item @ ''. Please check manually.''),
              emit ConsoleError s')
         | (None, s') \<Rightarrow> deductBatches e item (n - taken) bs s')"
      unfolding taken_def left_def st_def using False by (simp add: Let_def)
    have answered: "fails e (trace s) (BatchUpdate (batch_id b) left st) = None"
    proof (cases "fails e (trace s) (BatchUpdate (batch_id b) left st)")
      case None
      then show ?thesis .
    next
      case (Some err)
      have "fst (deductBatches e item n (b # bs) s) \<noteq> None"
        unfolding unfold update_batch_failed[OF Some] by simp
      then show ?thesis using Cons.prems(1) by simp
    qed
    have step: "deductBatches e item n (b # bs) s = deductBatches e item (n - taken) bs s1"
      unfolding unfold update_batch_ok[OF answered] by (simp add: s1_def)
    then have rest: "deductBatches e item (n - taken) bs s1 = (None, s')"
      using Cons.prems(1) by simp
    have rows1: "inventory_batches s1 = write_batch (batch_id b) left st (inventory_batches s)"
      and trace1: "trace s1 = trace s @ [Remote (BatchUpdate (batch_id b) left st)]"
      by (simp_all add: s1_def emit_def)
    have nonneg: "0 \<le> n - taken" using Cons.prems(2) by (simp add: taken_def)
    have notin: "batch_id b \<notin> batch_id ` set bs" using Cons.prems(4) by simp
    have inv1: "\<forall>r \<in> set (inventory_batches s1). \<forall>b' \<in> set bs. batch_id r = batch_id b' \<longrightarrow> r = b'"
      using Cons.prems(5) notin by (auto simp: rows1 write_batch_def)
    have IH: "inventory_batches s' = replace_rows (fefo_spec (n - taken) bs) (inventory_batches s1)"
      "trace s' = trace s1 @ map update_of (take (needed (n - taken) bs) (fefo_spec (n - taken) bs))"
      using Cons.IH[OF rest nonneg _ _ inv1] Cons.prems(3,4) by simp_all
    have act: "status b = ''active''" using Cons.prems(3) by simp
    have zero: "left = 0 \<longleftrightarrow> quantity b = taken" by (simp add: left_def)
    have none: "find (\<lambda>x. batch_id x = batch_id b) (fefo_spec (n - taken) bs) = None"
      using notin by (intro find_id_None) (metis fefo_spec_ids set_map)
    have row: "(case find (\<lambda>x. batch_id x = batch_id (if batch_id r = batch_id b then r\<lparr>quantity := left, status := st\<rparr> else r))
                     (fefo_spec (n - taken) bs) of Some x \<Rightarrow> x
                | None \<Rightarrow> (if batch_id r = batch_id b then r\<lparr>quantity := left, status := st\<rparr> else r))
             = (case find (\<lambda>x. batch_id x = batch_id r) (fefo_spec n (b # bs)) of Some x \<Rightarrow> x | None \<Rightarrow> r)"
      if "r \<in> set (inventory_batches s)" for r
    proof (cases "batch_id r = batch_id b")
      case True
      then have "r = b" using Cons.prems(5) that by simp
      then show ?thesis
        using none act zero by (simp add: Let_def taken_def[symmetric] left_def[symmetric] st_def)
    next
      case False
      then have "batch_id b \<noteq> batch_id r" by simp
      then show ?thesis
        using False by (simp add: Let_def taken_def[symmetric] left_def[symmetric])
    qed
    have rows: "inventory_batches s' = replace_rows (fefo_spec n (b # bs)) (inventory_batches s)"
      unfolding IH(1) rows1
      unfolding replace_rows_def write_batch_def
      using row by (simp add: comp_def)
    define b' where
      "b' = b\<lparr>quantity := left, status := (if left = 0 then ''sold_out'' else status b)\<rparr>"
    have spec: "fefo_spec n (b # bs) = b' # fefo_spec (n - taken) bs"
      unfolding b'_def left_def taken_def by (simp add: Let_def)
    have upd: "update_of b' = Remote (BatchUpdate (batch_id b) left st)"
      unfolding b'_def using act by (simp add: update_of_def st_def)
    have cnt: "needed n (b # bs) = Suc (needed (n - taken) bs)"
      unfolding taken_def by (rule needed_Cons[OF npos])
    have tr: "trace s' = trace s @ map update_of (take (needed n (b # bs)) (fefo_spec n (b # bs)))"
      unfolding IH(2) trace1 spec cnt by (simp add: upd)
    from rows tr show ?thesis by simp
  qed
qed

lemma line_rows_ids [simp]: "map batch_id (line_rows e item rows) = map batch_id rows"
proof -
  have "batch_id (case find (\<lambda>b. batch_id b = batch_id r) new of Some b \<Rightarrow> b | None \<Rightarrow> r)
          = batch_id r" for r and new :: "batch list"
    by (auto simp: find_Some_iff split: option.splits)
  then show ?thesis by (simp add: line_rows_def replace_rows_def comp_def)
qed

lemma fefo_cart_ids [simp]: "map batch_id (fefo_cart e items rows) = map batch_id rows"
  by (induction items arbitrary: rows) simp_all

lemma deductItem_ok:
  assumes "deductItem e item s = (None, s')" "distinct (map batch_id (inventory_batches s))"
    "0 \<le> qty item"
  shows "inventory_batches s' = line_rows e item (inventory_batches s) \<and>
         trace s' = trace s @ line_requests e item (inventory_batches s)"
proof -
  let ?bs = "rows_fefo e (productId item) (inventory_batches s)"
  let ?s1 = "emit (Remote (BatchesFEFO (productId item))) s"
  have fetched: "fails e (trace s) (BatchesFEFO (productId item)) = None"
    using assms(1)
    by (cases "fails e (trace s) (BatchesFEFO (productId item))")
       (simp_all add: deductItem_def select_batches_fefo_def remote_def)
  then have loop: "deductBatches e item (qty item) ?bs ?s1 = (None, s')"
    using assms(1) by (simp add: deductItem_def select_batches_fefo_def remote_def emit_def)
  have "inventory_batches s' = replace_rows (fefo_spec (qty item) ?bs) (inventory_batches ?s1) \<and>
        trace s' = trace ?s1 @ map update_of (take (needed (qty item) ?bs) (fefo_spec (qty item) ?bs))"
  proof (rule deductBatches_ok[OF loop assms(3)])
    show "\<forall>b \<in> set ?bs. 0 < quantity b \<and> status b = ''active''"
      using rows_fefo_active by blast
    show "distinct (map batch_id ?bs)"
      using assms(2) by (rule rows_fefo_distinct)
    show "\<forall>r \<in> set (inventory_batches ?s1). \<forall>b \<in> set ?bs. batch_id r = batch_id b \<longrightarrow> r = b"
      using rows_fefo_consistent[OF assms(2)] by (simp add: emit_def)
  qed
  then show ?thesis by (simp add: line_rows_def line_requests_def emit_def)
qed

lemma deductCart_ok:
  assumes "deductCart e items s = (None, s')" "distinct (map batch_id (inventory_batches s))"
    "\<forall>item \<in> set items. 0 \<le> qty item"
  shows "inventory_batches s' = fefo_cart e items (inventory_batches s) \<and>
         trace s' = trace s @ fefo_requests e items (inventory_batches s)"
  using assms
proof (induction items arbitrary: s)
  case Nil
  then show ?case by simp
next
  case (Cons item items)
  obtain r s1 where d: "deductItem e item s = (r, s1)" by (cases "deductItem e item s")
  then have r: "r = None" and rest: "deductCart e items s1 = (None, s')"
    using Cons.prems(1) by (cases r; simp)+
  have one: "inventory_batches s1 = line_rows e item (inventory_batches s)"
    "trace s1 = trace s @ line_requests e item (inventory_batches s)"
    using deductItem_ok[OF d[unfolded r] Cons.prems(2)] Cons.prems(3) by simp_all
  have "distinct (map batch_id (inventory_batches s1))"
    using Cons.prems(2) by (simp add: one(1))
  from Cons.IH[OF rest this] Cons.prems(3) one show ?case by simp
qed



lemma finalizeCheckout_reliable:
  assumes "reliable e" "cart s \<noteq> []" "distinct (map batch_id (inventory_batches s))"
    "\<forall>item \<in> set (cart s). 0 \<le> qty item"
  shows "inventory_batches (finalizeCheckout e s) = fefo_cart e (cart s) (inventory_batches s) \<and>
         trace (finalizeCheckout e s) =
           trace (checkout_start e s) @ fefo_requests e (cart s) (inventory_batches s) @
           [Toast CheckoutSuccessful, InventoryUpdated]"
proof -
  obtain s3 where d: "deductCart e (cart s) (checkout_start e s) = (None, s3)"
    using deductCart_no_error[OF assms(1), of "cart s" "checkout_start e s"]
    by (cases "deductCart e (cart s) (checkout_start e s)") auto
  have "inventory_batches s3 = fefo_cart e (cart s) (inventory_batches s)"
    "trace s3 = trace (checkout_start e s) @ fefo_requests e (cart s) (inventory_batches s)"
    using deductCart_ok[OF d] assms(3,4) by simp_all
  then show ?thesis using assms(2) d by (simp add: finalizeCheckout_def emit_def)
qed

lemma deductBatches_zero: "deductBatches e item 0 bs s = (None, s)"
  by (cases bs) simp_all

lemma deductBatches_step:
  "n \<noteq> 0 \<Longrightarrow>
   deductBatches e item n (b # bs) s =
     (case update_batch e (batch_id b) (quantity b - min n (quantity b))
             (if quantity b - min n (quantity b) = 0 then ''sold_out'' else ''active'') s of
        (Some err, s') \<Rightarrow>
          (Some (''Failed to update inventory for '' @ name item @ ''. Please check manually.''),
           emit ConsoleError s')
      | (None, s') \<Rightarrow> deductBatches e item (n - min n (quantity b)) bs s')"
  by (simp add: Let_def)

lemma deductBatches_append_ok:
  "deductBatches e item n used s = (None, applied) \<Longrightarrow>
   deductBatches e item n (used @ later) s
     = deductBatches e item (remaining_after n used) later applied"
proof (induction used arbitrary: n s)
  case Nil
  then show ?case by simp
next
  case (Cons b used)
  show ?case
  proof (cases "n = 0")
    case True
    then show ?thesis using Cons.prems by (simp add: deductBatches_zero)
  next
    case False
    let ?left = "quantity b - min n (quantity b)"
    let ?st = "if ?left = 0 then ''sold_out'' else ''active''"
    show ?thesis
    proof (cases "fails e (trace s) (BatchUpdate (batch_id b) ?left ?st)")
      case (Some err)
      have "fst (deductBatches e item n (b # used) s) \<noteq> None"
        unfolding deductBatches_step[OF False] update_batch_failed[OF Some] by simp
      then show ?thesis using Cons.prems by simp
    next
      case None
      let ?s1 = "(emit (Remote (BatchUpdate (batch_id b) ?left ?st)) s)
              \<lparr>inventory_batches := write_batch (batch_id b) ?left ?st (inventory_batches s)\<rparr>"
      have step: "deductBatches e item n (b # xs) s
                    = deductBatches e item (n - min n (quantity b)) xs ?s1" for xs
        unfolding deductBatches_step[OF False] update_batch_ok[OF None] by simp
      have "deductBatches e item (n - min n (quantity b)) used ?s1 = (None, applied)"
        using Cons.prems unfolding step .
      from Cons.IH[OF this] show ?thesis
        using False unfolding append_Cons step by simp
    qed
  qed
qed

lemma deductBatches_update_failed:
  assumes "n \<noteq> 0" "fails e (trace s) (update_request n b) = Some err"
  shows "deductBatches e item n (b # bs) s =
           (Some (''Failed to update inventory for '' @ name item @ ''. Please check manually.''),
            emit ConsoleError (emit (Remote (update_request n b)) s))"
proof -
  have "fails e (trace s)
          (BatchUpdate (batch_id b) (quantity b - min n (quantity b))
             (if quantity b - min n (quantity b) = 0 then ''sold_out'' else ''active'')) = Some err"
    using assms(2) by (simp add: update_request_def Let_def)
  from update_batch_failed[OF this] show ?thesis
    unfolding deductBatches_step[OF assms(1)] by (simp add: update_request_def Let_def)
qed

lemma deductItem_fetch_failed:
  "fails e (trace s) (BatchesFEFO (productId item)) = Some err \<Longrightarrow>
   deductItem e item s =
     (Some (''Failed to fetch batches for '' @ name item @ '': '' @ err),
      emit (Remote (BatchesFEFO (productId item))) s)"
  by (simp add: deductItem_def select_batches_fefo_def remote_def)

lemma deductItem_fetched:
  "fails e (trace s) (BatchesFEFO (productId item)) = None \<Longrightarrow>
   deductItem e item s =
     deductBatches e item (qty item) (rows_fefo e (productId item) (inventory_batches s))
       (emit (Remote (BatchesFEFO (productId item))) s)"
  by (simp add: deductItem_def select_batches_fefo_def remote_def emit_def)

lemma finalizeCheckout_failed:
  assumes "cart s = pre @ item # post" "deductCart e pre (checkout_start e s) = (None, reached)"
    "deductItem e item reached = (Some msg, stopped)" "msg \<noteq> []"
  shows "finalizeCheckout e s =
           (emit (Toast (InventoryUpdateFailed msg)) (emit ConsoleError stopped))
             \<lparr>isCheckingOut := False\<rparr>"
proof -
  have "deductCart e (pre @ item # post) (checkout_start e s) = deductCart e (item # post) reached"
    using deductCart_append[of e pre "checkout_start e s" "item # post"] assms(2) by simp
  then have "deductCart e (cart s) (checkout_start e s) = (Some msg, stopped)"
    using assms(1,3) by simp
  moreover have "cart s \<noteq> []" using assms(1) by simp
  ultimately show ?thesis using assms(4) by (simp add: finalizeCheckout_def)
qed

lemma deductBatches_events:
  "\<exists>rest. trace (snd (deductBatches e item n bs s)) = trace s @ rest \<and>
          set rest \<subseteq> insert ConsoleError (range Remote)"
proof (induction bs arbitrary: n s)
  case Nil
  then show ?case by simp
next
  case (Cons b bs)
  show ?case
  proof (cases "n = 0")
    case True
    then show ?thesis by simp
  next
    case False
    let ?left = "quantity b - min n (quantity b)"
    let ?st = "if ?left = 0 then ''sold_out'' else ''active''"
    show ?thesis
    proof (cases "fails e (trace s) (BatchUpdate (batch_id b) ?left ?st)")
      case (Some err)
      show ?thesis
        unfolding deductBatches_step[OF False] update_batch_failed[OF Some] by simp
    next
      case None
      let ?s1 = "(emit (Remote (BatchUpdate (batch_id b) ?left ?st)) s)
              \<lparr>inventory_batches := write_batch (batch_id b) ?left ?st (inventory_batches s)\<rparr>"
      obtain rest where
        "trace (snd (deductBatches e item (n - min n (quantity b)) bs ?s1)) = trace ?s1 @ rest"
        "set rest \<subseteq> insert ConsoleError (range Remote)"
        using Cons.IH by blast
      then show ?thesis
        unfolding deductBatches_step[OF False] update_batch_ok[OF None] by simp
    qed
  qed
qed

lemma deductItem_events:
  "\<exists>rest. trace (snd (deductItem e item s)) =
            trace s @ Remote (BatchesFEFO (productId item)) # rest \<and>
          set rest \<subseteq> insert ConsoleError (range Remote)"
proof (cases "fails e (trace s) (BatchesFEFO (productId item))")
  case None
  obtain rest where
    "trace (snd (deductBatches e item (qty item) (rows_fefo e (productId item) (inventory_batches s))
                   (emit (Remote (BatchesFEFO (productId item))) s)))
       = trace (emit (Remote (BatchesFEFO (productId item))) s) @ rest"
    "set rest \<subseteq> insert ConsoleError (range Remote)"
    using deductBatches_events by blast
  then show ?thesis unfolding deductItem_fetched[OF None] by simp
next
  case (Some err)
  show ?thesis unfolding deductItem_fetch_failed[OF Some] by simp
qed

lemma deductCart_events:
  "\<exists>rest. trace (snd (deductCart e items s)) = trace s @ rest \<and>
          set rest \<subseteq> insert ConsoleError (range Remote)"
proof (induction items arbitrary: s)
  case Nil
  then show ?case by simp
next
  case (Cons item items)
  obtain r s1 where d: "deductItem e item s = (r, s1)" by (cases "deductItem e item s")
  obtain r1 where t1: "trace s1 = trace s @ Remote (BatchesFEFO (productId item)) # r1"
    "set r1 \<subseteq> insert ConsoleError (range Remote)"
    using deductItem_events[of e item s] d by auto
  show ?case
  proof (cases r)
    case None
    obtain r2 where "trace (snd (deductCart e items s1)) = trace s1 @ r2"
      "set r2 \<subseteq> insert ConsoleError (range Remote)"
      using Cons.IH by blast
    then show ?thesis using d None t1 by simp
  next
    case (Some a)
    then show ?thesis using d t1 by simp
  qed
qed

lemma deductCart_first_event:
  "\<exists>rest. trace (snd (deductCart e (item # items) s)) =
            trace s @ Remote (BatchesFEFO (productId item)) # rest \<and>
          set rest \<subseteq> insert ConsoleError (range Remote)"
proof -
  obtain r s1 where d: "deductItem e item s = (r, s1)" by (cases "deductItem e item s")
  obtain r1 where t1: "trace s1 = trace s @ Remote (BatchesFEFO (productId item)) # r1"
    "set r1 \<subseteq> insert ConsoleError (range Remote)"
    using deductItem_events[of e item s] d by auto
  show ?thesis
  proof (cases r)
    case None
    obtain r2 where "trace (snd (deductCart e items s1)) = trace s1 @ r2"
      "set r2 \<subseteq> insert ConsoleError (range Remote)"
      using deductCart_events by blast
    then show ?thesis using d None t1 by simp
  next
    case (Some a)
    then show ?thesis using d t1 by simp
  qed
qed

subsection \<open>First-expiry-first-out deduction\<close>



subsection \<open>The receipt comes first\<close>

text \<open>
  Claim C3, as the code has it. On a non-empty cart \<open>finalizeCheckout\<close> calls
  \<^verbatim>\<open>window.open\<close> before anything else and, when a window is returned, writes the
  receipt of the cart into it at once. The next event is the fetch for the first cart
  line, so the deduction is attempted whether or not a window was returned, and every
  fetch and update comes after the receipt. Nothing after that fetch opens a window or
  writes a receipt: when \<^verbatim>\<open>window.open\<close> returns null, the guard
  \<^verbatim>\<open>if (receiptWindow)\<close> skips the writing and no receipt is produced at all. This
  holds for every behaviour of the remote calls, so also when all of them fail. The
  table returned is the one the deduction leaves; when no call fails it is the table
  with every line settled first-expiry-first-out, and the events are the window, the
  receipt if a window was returned, the requests of the lines and the completion.
\<close>

theorem finalizeCheckout_receipt_first:
  assumes "cart s = first # others"
  shows "(\<exists>rest. trace (finalizeCheckout e s) =
             trace s @ WindowOpen #
               (if popup e then [ReceiptWritten (receipt_of e (cart s))] else []) @
               Remote (BatchesFEFO (productId first)) # rest \<and>
           (\<forall>r. ReceiptWritten r \<notin> set rest) \<and> WindowOpen \<notin> set rest) \<and>
         inventory_batches (finalizeCheckout e s) =
           inventory_batches (snd (deductCart e (cart s) (checkout_start e s))) \<and>
         (reliable e \<and> distinct (map batch_id (inventory_batches s)) \<and>
          (\<forall>line \<in> set (cart s). 0 \<le> qty line) \<longrightarrow>
            inventory_batches (finalizeCheckout e s) = fefo_cart e (cart s) (inventory_batches s) \<and>
            trace (finalizeCheckout e s) =
              trace s @ WindowOpen #
                (if popup e then [ReceiptWritten (receipt_of e (cart s))] else []) @
                fefo_requests e (cart s) (inventory_batches s) @
                [Toast CheckoutSuccessful, InventoryUpdated])"
proof -
  have ne: "cart s \<noteq> []" using assms by simp
  obtain r s3 where d: "deductCart e (cart s) (checkout_start e s) = (r, s3)"
    by (cases "deductCart e (cart s) (checkout_start e s)")
  obtain mid where mid: "trace s3 =
      trace (checkout_start e s) @ Remote (BatchesFEFO (productId first)) # mid"
    "set mid \<subseteq> insert ConsoleError (range Remote)"
    using deductCart_first_event[of e first others "checkout_start e s"] d assms by auto
  have t3: "trace s3 =
     trace s @ WindowOpen # (if popup e then [ReceiptWritten (receipt_of e (cart s))] else []) @
       Remote (BatchesFEFO (productId first)) # mid"
    using mid(1) by (simp add: checkout_start_trace)
  have clean: "(\<forall>r. ReceiptWritten r \<notin> set mid) \<and> WindowOpen \<notin> set mid"
    using mid(2) by auto
  have order: "\<exists>rest. trace (finalizeCheckout e s) =
             trace s @ WindowOpen #
               (if popup e then [ReceiptWritten (receipt_of e (cart s))] else []) @
               Remote (BatchesFEFO (productId first)) # rest \<and>
           (\<forall>r. ReceiptWritten r \<notin> set rest) \<and> WindowOpen \<notin> set rest"
  proof (cases r)
    case None
    have "trace (finalizeCheckout e s) =
             trace s @ WindowOpen #
               (if popup e then [ReceiptWritten (receipt_of e (cart s))] else []) @
               Remote (BatchesFEFO (productId first)) #
               (mid @ [Toast CheckoutSuccessful, InventoryUpdated])"
      using ne d None t3 by (simp add: finalizeCheckout_def)
    moreover have "(\<forall>r. ReceiptWritten r \<notin> set (mid @ [Toast CheckoutSuccessful, InventoryUpdated]))
        \<and> WindowOpen \<notin> set (mid @ [Toast CheckoutSuccessful, InventoryUpdated])"
      using clean by simp
    ultimately show ?thesis by blast
  next
    case (Some msg)
    let ?t = "Toast (InventoryUpdateFailed
                (if msg = [] then ''The receipt was printed, but inventory could not be updated.''
                 else msg))"
    have "trace (finalizeCheckout e s) =
             trace s @ WindowOpen #
               (if popup e then [ReceiptWritten (receipt_of e (cart s))] else []) @
               Remote (BatchesFEFO (productId first)) # (mid @ [ConsoleError, ?t])"
      using ne d Some t3 by (simp add: finalizeCheckout_def)
    moreover have "(\<forall>r. ReceiptWritten r \<notin> set (mid @ [ConsoleError, ?t]))
        \<and> WindowOpen \<notin> set (mid @ [ConsoleError, ?t])"
      using clean by simp
    ultimately show ?thesis by blast
  qed
  have table: "inventory_batches (finalizeCheckout e s) =
           inventory_batches (snd (deductCart e (cart s) (checkout_start e s)))"
    using ne d by (cases r) (simp_all add: finalizeCheckout_def emit_def)
  have full: "inventory_batches (finalizeCheckout e s) = fefo_cart e (cart s) (inventory_batches s) \<and>
            trace (finalizeCheckout e s) =
              trace s @ WindowOpen #
                (if popup e then [ReceiptWritten (receipt_of e (cart s))] else []) @
                fefo_requests e (cart s) (inventory_batches s) @
                [Toast CheckoutSuccessful, InventoryUpdated]"
    if "reliable e" "distinct (map batch_id (inventory_batches s))"
      "\<forall>line \<in> set (cart s). 0 \<le> qty line"
    using finalizeCheckout_reliable[OF that(1) ne that(2,3)] by (simp add: checkout_start_trace)
  show ?thesis
    apply (intro conjI impI)
    subgoal by (rule order)
    subgoal by (rule table)
    subgoal using full by blast
    subgoal using full by blast
    done
qed

text \<open>
  With every remote call failing, the receipt is still the first thing produced, and the
  fetch for the first line follows it. With the window refused and no call failing,
  no receipt is written and the deduction is carried out in full.
\<close>

theorem finalizeCheckout_receipt_first_witness:
  "cart fefo_example = line ''rice'' ''Rice'' 15 20 # [] \<and> popup offline_env \<and>
   take 3 (trace (finalizeCheckout offline_env fefo_example)) =
     [WindowOpen,
      ReceiptWritten \<lparr>receipt_shop = ''Corner Shop'',
                      receipt_lines = [(''Rice'', 15, 30, 450)],
                      receipt_subtotal = 450\<rparr>,
      Remote (BatchesFEFO ''rice'')] \<and>
   drop 3 (trace (finalizeCheckout offline_env fefo_example)) =
     [ConsoleError,
      Toast (InventoryUpdateFailed ''Failed to fetch batches for Rice: offline'')] \<and>
   inventory_batches (finalizeCheckout offline_env fefo_example) = inventory_batches fefo_example \<and>
   popup blocked_env = False \<and> reliable blocked_env \<and>
   distinct (map batch_id (inventory_batches fefo_example)) \<and>
   list_all (\<lambda>item. 0 \<le> qty item) (cart fefo_example) \<and>
   inventory_batches (finalizeCheckout blocked_env fefo_example) =
     [(stock ''late'' ''rice'' 10 (2024, 2, 1))\<lparr>quantity := 5\<rparr>,
      (stock ''early'' ''rice'' 10 (2024, 1, 1))\<lparr>quantity := 0, status := ''sold_out''\<rparr>] \<and>
   drop 1 (trace (finalizeCheckout blocked_env fefo_example)) =
     [Remote (BatchesFEFO ''rice''),
      Remote (BatchUpdate ''early'' 0 ''sold_out''), Remote (BatchUpdate ''late'' 5 ''active''),
      Toast CheckoutSuccessful, InventoryUpdated]"
proof -
  let ?rice = "line ''rice'' ''Rice'' 15 20"
  let ?late = "stock ''late'' ''rice'' 10 (2024, 2, 1)"
  let ?early = "stock ''early'' ''rice'' 10 (2024, 1, 1)"
  have split: "cart fefo_example = ?rice # []" by (simp add: fefo_example_def session_def)
  have r: "receipt_of offline_env (cart fefo_example) =
      \<lparr>receipt_shop = ''Corner Shop'', receipt_lines = [(''Rice'', 15, 30, 450)],
       receipt_subtotal = 450\<rparr>"
    by (simp add: receipt_of_def subtotal_def offline_env_def shop_env_def fefo_example_def
          session_def line_def)
  have p: "popup offline_env" by (simp add: offline_env_def shop_env_def)
  have np: "popup blocked_env = False" by (simp add: blocked_env_def shop_env_def)
  have rel: "reliable blocked_env" by (simp add: reliable_def blocked_env_def shop_env_def)
  have t0: "trace fefo_example = []" by (simp add: fefo_example_def session_def)
  have tab: "inventory_batches fefo_example = [?late, ?early]"
    by (simp add: fefo_example_def session_def)
  have dist: "distinct (map batch_id (inventory_batches fefo_example))"
    by (simp add: tab stock_def)
  have nonneg: "\<forall>item \<in> set (cart fefo_example). 0 \<le> qty item"
    by (simp add: split line_def)
  have listed: "list_all (\<lambda>item. 0 \<le> qty item) (cart fefo_example)"
    by (simp add: split line_def)
  note offline = finalizeCheckout_receipt_first[OF split, of offline_env]
  note blocked = finalizeCheckout_receipt_first[OF split, of blocked_env]
  obtain rest where "trace (finalizeCheckout offline_env fefo_example) =
      trace fefo_example @ WindowOpen #
        (if popup offline_env then [ReceiptWritten (receipt_of offline_env (cart fefo_example))]
         else []) @ Remote (BatchesFEFO (productId ?rice)) # rest"
    using offline[THEN conjunct1] by blast
  then have head: "take 3 (trace (finalizeCheckout offline_env fefo_example)) =
     [WindowOpen,
      ReceiptWritten \<lparr>receipt_shop = ''Corner Shop'',
                      receipt_lines = [(''Rice'', 15, 30, 450)],
                      receipt_subtotal = 450\<rparr>,
      Remote (BatchesFEFO ''rice'')]"
    by (simp add: t0 p r line_def)
  have tail: "drop 3 (trace (finalizeCheckout offline_env fefo_example)) =
     [ConsoleError,
      Toast (InventoryUpdateFailed ''Failed to fetch batches for Rice: offline'')]"
    and untouched: "inventory_batches (finalizeCheckout offline_env fefo_example)
                      = inventory_batches fefo_example"
    by (simp_all add: fefo_example_def offline_env_def shop_env_def session_def stock_def line_def
          query_defs checkout_defs)
  have rows: "rows_fefo blocked_env (productId ?rice) [?late, ?early] = [?early, ?late]"
    by (simp add: rows_fefo_def qualifying_def blocked_env_def shop_env_def stock_def line_def)
  have spec: "fefo_spec (qty ?rice) [?early, ?late] =
      [?early\<lparr>quantity := 0, status := ''sold_out''\<rparr>, ?late\<lparr>quantity := 5\<rparr>]"
    by (simp add: stock_def line_def Let_def)
  have count: "needed (qty ?rice) [?early, ?late] = 2"
    by (simp add: needed_Cons needed_nonpos stock_def line_def)
  have written: "replace_rows
      [?early\<lparr>quantity := 0, status := ''sold_out''\<rparr>, ?late\<lparr>quantity := 5\<rparr>]
      [?late, ?early] =
      [?late\<lparr>quantity := 5\<rparr>, ?early\<lparr>quantity := 0, status := ''sold_out''\<rparr>]"
    by (simp add: replace_rows_def stock_def)
  have settled: "fefo_cart blocked_env (cart fefo_example) (inventory_batches fefo_example) =
      [?late\<lparr>quantity := 5\<rparr>, ?early\<lparr>quantity := 0, status := ''sold_out''\<rparr>]"
    unfolding split tab fefo_cart.simps line_rows_def rows spec written ..
  have requests: "fefo_requests blocked_env (cart fefo_example) (inventory_batches fefo_example) =
      [Remote (BatchesFEFO ''rice''),
       Remote (BatchUpdate ''early'' 0 ''sold_out''), Remote (BatchUpdate ''late'' 5 ''active'')]"
    unfolding split tab fefo_requests.simps line_requests_def rows spec count
    by (simp add: update_of_def stock_def line_def)
  note full = blocked[THEN conjunct2, THEN conjunct2, THEN mp,
      OF conjI[OF rel conjI[OF dist nonneg]], unfolded settled requests]
  have table: "inventory_batches (finalizeCheckout blocked_env fefo_example) =
     [?late\<lparr>quantity := 5\<rparr>, ?early\<lparr>quantity := 0, status := ''sold_out''\<rparr>]"
    by (rule full[THEN conjunct1])
  have events: "drop 1 (trace (finalizeCheckout blocked_env fefo_example)) =
     [Remote (BatchesFEFO ''rice''),
      Remote (BatchUpdate ''early'' 0 ''sold_out''), Remote (BatchUpdate ''late'' 5 ''active''),
      Toast CheckoutSuccessful, InventoryUpdated]"
    using full[THEN conjunct2] by (simp add: t0 np)
  show ?thesis
    apply (intro conjI)
    subgoal by (rule split)
    subgoal by (rule p)
    subgoal by (rule head)
    subgoal by (rule tail)
    subgoal by (rule untouched)
    subgoal by (rule np)
    subgoal by (rule rel)
    subgoal by (rule dist)
    subgoal by (rule listed)
    subgoal by (rule table)
    subgoal by (rule events)
    done
qed

text \<open>
  With the window refused, a checkout that succeeds in full never writes a receipt: the
  claim as stated, "for every non-empty cart the receipt is rendered", fails here.
\<close>

theorem finalizeCheckout_receipt_counterexample:
  "cart fefo_example \<noteq> [] \<and>
   trace (finalizeCheckout blocked_env fefo_example) =
     [WindowOpen, Remote (BatchesFEFO ''rice''),
      Remote (BatchUpdate ''early'' 0 ''sold_out''), Remote (BatchUpdate ''late'' 5 ''active''),
      Toast CheckoutSuccessful, InventoryUpdated]"
  by (simp add: fefo_example_def blocked_env_def shop_env_def session_def stock_def line_def
        query_defs checkout_defs)

subsection \<open>A failing call stops the checkout and undoes nothing\<close>

text \<open>
  Claim C2. The lines are processed in cart order and nothing is undone. Let the lines
  \<open>pre\<close> before the line \<open>item\<close> have been deducted without a failing call, reaching
  the state \<open>reached\<close>. If the fetch for \<open>item\<close> then fails, or if it succeeds, the
  batches \<open>used\<close> of the line are written without a failing call, the request is
  not yet satisfied and the update of the next batch \<open>b\<close> fails, then
  \<open>finalizeCheckout\<close> stops there: the state it returns is the state at the failing
  call with the error logged and one toast added, whose message names the product of
  \<open>item\<close>. No request is made after the failing one, so the lines after \<open>item\<close> are never
  reached; the table is the one the calls before the failing one left, with the
  lines \<open>pre\<close> and the batches \<open>used\<close> settled and nothing restored; the cart is as it
  was and the dialog as open as it was.
\<close>

theorem finalizeCheckout_partial_failure:
  "(cart s = pre @ item # post \<and>
    deductCart e pre (checkout_start e s) = (None, reached) \<and>
    fails e (trace reached) (BatchesFEFO (productId item)) = Some err \<longrightarrow>
      finalizeCheckout e s =
        (emit (Toast (InventoryUpdateFailed
                 (''Failed to fetch batches for '' @ name item @ '': '' @ err)))
           (emit ConsoleError (emit (Remote (BatchesFEFO (productId item))) reached)))
          \<lparr>isCheckingOut := False\<rparr> \<and>
      inventory_batches (finalizeCheckout e s) = inventory_batches reached \<and>
      cart (finalizeCheckout e s) = cart s \<and>
      isOpen (finalizeCheckout e s) = isOpen s) \<and>
   (cart s = pre @ item # post \<and>
    deductCart e pre (checkout_start e s) = (None, reached) \<and>
    fails e (trace reached) (BatchesFEFO (productId item)) = None \<and>
    rows_fefo e (productId item) (inventory_batches reached) = used @ b # rest \<and>
    deductBatches e item (qty item) used
        (emit (Remote (BatchesFEFO (productId item))) reached) = (None, applied) \<and>
    remaining_after (qty item) used \<noteq> 0 \<and>
    fails e (trace applied) (update_request (remaining_after (qty item) used) b) = Some err \<longrightarrow>
      finalizeCheckout e s =
        (emit (Toast (InventoryUpdateFailed
                 (''Failed to update inventory for '' @ name item @ ''. Please check manually.'')))
           (emit ConsoleError
              (emit ConsoleError
                 (emit (Remote (update_request (remaining_after (qty item) used) b)) applied))))
          \<lparr>isCheckingOut := False\<rparr> \<and>
      inventory_batches (finalizeCheckout e s) = inventory_batches applied \<and>
      cart (finalizeCheckout e s) = cart s \<and>
      isOpen (finalizeCheckout e s) = isOpen s \<and>
      (distinct (map batch_id (inventory_batches s)) \<and> (\<forall>line \<in> set (cart s). 0 \<le> qty line) \<longrightarrow>
         inventory_batches applied =
           replace_rows (fefo_spec (qty item) used) (fefo_cart e pre (inventory_batches s)))) \<and>
   (deductCart e pre (checkout_start e s) = (None, reached) \<and>
    distinct (map batch_id (inventory_batches s)) \<and> (\<forall>line \<in> set pre. 0 \<le> qty line) \<longrightarrow>
      inventory_batches reached = fefo_cart e pre (inventory_batches s))"
proof -
  have frame: "cart reached = cart s \<and> isOpen reached = isOpen s"
    if "deductCart e pre (checkout_start e s) = (None, reached)"
    using deductCart_frame[of e pre "checkout_start e s"] that by simp
  have content: "inventory_batches reached = fefo_cart e pre (inventory_batches s)"
    if "deductCart e pre (checkout_start e s) = (None, reached)"
      "distinct (map batch_id (inventory_batches s))" "\<forall>line \<in> set pre. 0 \<le> qty line"
    using deductCart_ok[OF that(1)] that(2,3) by simp
  have fetch: "finalizeCheckout e s =
        (emit (Toast (InventoryUpdateFailed
                 (''Failed to fetch batches for '' @ name item @ '': '' @ err)))
           (emit ConsoleError (emit (Remote (BatchesFEFO (productId item))) reached)))
          \<lparr>isCheckingOut := False\<rparr> \<and>
      inventory_batches (finalizeCheckout e s) = inventory_batches reached \<and>
      cart (finalizeCheckout e s) = cart s \<and>
      isOpen (finalizeCheckout e s) = isOpen s"
    if split: "cart s = pre @ item # post"
      and before: "deductCart e pre (checkout_start e s) = (None, reached)"
      and failed: "fails e (trace reached) (BatchesFEFO (productId item)) = Some err"
  proof -
    have fin: "finalizeCheckout e s =
        (emit (Toast (InventoryUpdateFailed
                 (''Failed to fetch batches for '' @ name item @ '': '' @ err)))
           (emit ConsoleError (emit (Remote (BatchesFEFO (productId item))) reached)))
          \<lparr>isCheckingOut := False\<rparr>"
      by (rule finalizeCheckout_failed[OF split before deductItem_fetch_failed[OF failed]]) simp
    show ?thesis using frame[OF before] by (simp add: fin emit_def)
  qed
  have update: "finalizeCheckout e s =
        (emit (Toast (InventoryUpdateFailed
                 (''Failed to update inventory for '' @ name item @ ''. Please check manually.'')))
           (emit ConsoleError
              (emit ConsoleError
                 (emit (Remote (update_request (remaining_after (qty item) used) b)) applied))))
          \<lparr>isCheckingOut := False\<rparr> \<and>
      inventory_batches (finalizeCheckout e s) = inventory_batches applied \<and>
      cart (finalizeCheckout e s) = cart s \<and>
      isOpen (finalizeCheckout e s) = isOpen s \<and>
      (distinct (map batch_id (inventory_batches s)) \<and> (\<forall>line \<in> set (cart s). 0 \<le> qty line) \<longrightarrow>
         inventory_batches applied =
           replace_rows (fefo_spec (qty item) used) (fefo_cart e pre (inventory_batches s)))"
    if split: "cart s = pre @ item # post"
      and before: "deductCart e pre (checkout_start e s) = (None, reached)"
      and fetched: "fails e (trace reached) (BatchesFEFO (productId item)) = None"
      and rows: "rows_fefo e (productId item) (inventory_batches reached) = used @ b # rest"
      and written: "deductBatches e item (qty item) used
                      (emit (Remote (BatchesFEFO (productId item))) reached) = (None, applied)"
      and unmet: "remaining_after (qty item) used \<noteq> 0"
      and failed: "fails e (trace applied) (update_request (remaining_after (qty item) used) b)
                     = Some err"
  proof -
    let ?s1 = "emit (Remote (BatchesFEFO (productId item))) reached"
    have "deductItem e item reached = deductBatches e item (qty item) (used @ b # rest) ?s1"
      using deductItem_fetched[OF fetched] rows by simp
    also have "\<dots> = deductBatches e item (remaining_after (qty item) used) (b # rest) applied"
      by (rule deductBatches_append_ok[OF written])
    also have "\<dots> =
        (Some (''Failed to update inventory for '' @ name item @ ''. Please check manually.''),
         emit ConsoleError
           (emit (Remote (update_request (remaining_after (qty item) used) b)) applied))"
      by (rule deductBatches_update_failed[OF unmet failed])
    finally have line: "deductItem e item reached =
        (Some (''Failed to update inventory for '' @ name item @ ''. Please check manually.''),
         emit ConsoleError
           (emit (Remote (update_request (remaining_after (qty item) used) b)) applied))" .
    have fin: "finalizeCheckout e s =
        (emit (Toast (InventoryUpdateFailed
                 (''Failed to update inventory for '' @ name item @ ''. Please check manually.'')))
           (emit ConsoleError
              (emit ConsoleError
                 (emit (Remote (update_request (remaining_after (qty item) used) b)) applied))))
          \<lparr>isCheckingOut := False\<rparr>"
      by (rule finalizeCheckout_failed[OF split before line]) simp
    have fr: "cart applied = cart s \<and> isOpen applied = isOpen s"
      using deductBatches_frame[of e item "qty item" used ?s1] written frame[OF before]
      by simp
    have tab: "inventory_batches applied =
           replace_rows (fefo_spec (qty item) used) (fefo_cart e pre (inventory_batches s))"
      if dist: "distinct (map batch_id (inventory_batches s))"
        and nonneg: "\<forall>line \<in> set (cart s). 0 \<le> qty line"
    proof -
      have pre_ok: "\<forall>line \<in> set pre. 0 \<le> qty line" and q: "0 \<le> qty item"
        using nonneg split by simp_all
      have reached_rows: "inventory_batches reached = fefo_cart e pre (inventory_batches s)"
        by (rule content[OF before dist pre_ok])
      then have dist': "distinct (map batch_id (inventory_batches reached))"
        using dist by simp
      let ?bs = "rows_fefo e (productId item) (inventory_batches reached)"
      have sub: "set used \<subseteq> set ?bs" unfolding rows by auto
      have "inventory_batches applied = replace_rows (fefo_spec (qty item) used) (inventory_batches ?s1)
            \<and> trace applied = trace ?s1 @ map update_of (take (needed (qty item) used) (fefo_spec (qty item) used))"
      proof (rule deductBatches_ok[OF written q])
        show "\<forall>b \<in> set used. 0 < quantity b \<and> status b = ''active''"
          using sub rows_fefo_active[of _ e "productId item" "inventory_batches reached"] by blast
        have "distinct (map batch_id ?bs)" using dist' by (rule rows_fefo_distinct)
        then show "distinct (map batch_id used)" unfolding rows by simp
        show "\<forall>r \<in> set (inventory_batches ?s1). \<forall>b \<in> set used. batch_id r = batch_id b \<longrightarrow> r = b"
          using rows_fefo_consistent[OF dist'] sub by (simp add: emit_def) blast
      qed
      then show ?thesis by (simp add: emit_def reached_rows)
    qed
    show ?thesis using fr tab by (simp add: fin emit_def)
  qed
  show ?thesis
    apply (intro conjI impI)
    subgoal using fetch by blast
    subgoal using fetch by blast
    subgoal using fetch by blast
    subgoal using fetch by blast
    subgoal using update by blast
    subgoal using update by blast
    subgoal using update by blast
    subgoal using update by blast
    subgoal using update by blast
    subgoal using content by blast
    done
qed

text \<open>
  The example of the specification: in a cart of three lines the update of the second
  batch of the second line fails. The first line's deduction and the second line's
  first batch stay written, the third line is never reached, and the message names the
  second line's product. When every call fails, the fetch for the first line stops the
  checkout with the table as it was.
\<close>

theorem finalizeCheckout_partial_failure_witness:
  "cart three_lines =
     [line ''rice'' ''Rice'' 5 6] @ line ''salt'' ''Salt'' 2 5 # [line ''milk'' ''Milk'' 1 6] \<and>
   fst (deductCart flaky_env [line ''rice'' ''Rice'' 5 6] (checkout_start flaky_env three_lines))
     = None \<and>
   rows_fefo flaky_env ''salt''
      (inventory_batches
         (snd (deductCart flaky_env [line ''rice'' ''Rice'' 5 6]
                 (checkout_start flaky_env three_lines)))) =
     [stock ''b3'' ''salt'' 1 (2024, 3, 1)] @ stock ''b5'' ''salt'' 4 (2024, 3, 15) # [] \<and>
   remaining_after 2 [stock ''b3'' ''salt'' 1 (2024, 3, 1)] = 1 \<and>
   update_request 1 (stock ''b5'' ''salt'' 4 (2024, 3, 15)) = BatchUpdate ''b5'' 3 ''active'' \<and>
   trace (finalizeCheckout flaky_env three_lines) =
     [WindowOpen,
      ReceiptWritten \<lparr>receipt_shop = ''Corner Shop'',
                      receipt_lines =
                        [(''Rice'', 5, 30, 150), (''Salt'', 2, 30, 60), (''Milk'', 1, 30, 30)],
                      receipt_subtotal = 240\<rparr>,
      Remote (BatchesFEFO ''rice''),
      Remote (BatchUpdate ''b1'' 0 ''sold_out''), Remote (BatchUpdate ''b2'' 1 ''active''),
      Remote (BatchesFEFO ''salt''),
      Remote (BatchUpdate ''b3'' 0 ''sold_out''), Remote (BatchUpdate ''b5'' 3 ''active''),
      ConsoleError, ConsoleError,
      Toast (InventoryUpdateFailed
               ''Failed to update inventory for Salt. Please check manually.'')] \<and>
   inventory_batches (finalizeCheckout flaky_env three_lines) =
     [(stock ''b1'' ''rice'' 4 (2024, 1, 1))\<lparr>quantity := 0, status := ''sold_out''\<rparr>,
      (stock ''b2'' ''rice'' 2 (2024, 2, 1))\<lparr>quantity := 1\<rparr>,
      (stock ''b3'' ''salt'' 1 (2024, 3, 1))\<lparr>quantity := 0, status := ''sold_out''\<rparr>,
      stock ''b5'' ''salt'' 4 (2024, 3, 15), stock ''b4'' ''milk'' 6 (2024, 4, 1)] \<and>
   cart (finalizeCheckout flaky_env three_lines) = cart three_lines \<and>
   isOpen (finalizeCheckout flaky_env three_lines) \<and>
   trace (finalizeCheckout offline_env three_lines) =
     [WindowOpen,
      ReceiptWritten \<lparr>receipt_shop = ''Corner Shop'',
                      receipt_lines =
                        [(''Rice'', 5, 30, 150), (''Salt'', 2, 30, 60), (''Milk'', 1, 30, 30)],
                      receipt_subtotal = 240\<rparr>,
      Remote (BatchesFEFO ''rice''), ConsoleError,
      Toast (InventoryUpdateFailed ''Failed to fetch batches for Rice: offline'')] \<and>
   inventory_batches (finalizeCheckout offline_env three_lines) = inventory_batches three_lines \<and>
   cart (finalizeCheckout offline_env three_lines) = cart three_lines"
proof -
  let ?rice = "line ''rice'' ''Rice'' 5 6"
  let ?salt = "line ''salt'' ''Salt'' 2 5"
  let ?milk = "line ''milk'' ''Milk'' 1 6"
  let ?b1 = "stock ''b1'' ''rice'' 4 (2024, 1, 1)"
  let ?b2 = "stock ''b2'' ''rice'' 2 (2024, 2, 1)"
  let ?b3 = "stock ''b3'' ''salt'' 1 (2024, 3, 1)"
  let ?b5 = "stock ''b5'' ''salt'' 4 (2024, 3, 15)"
  let ?b4 = "stock ''b4'' ''milk'' 6 (2024, 4, 1)"
  let ?receipt = "\<lparr>receipt_shop = ''Corner Shop'',
      receipt_lines = [(''Rice'', 5, 30, 150), (''Salt'', 2, 30, 60), (''Milk'', 1, 30, 30)],
      receipt_subtotal = 240\<rparr>"
  define reached where
    "reached = snd (deductCart flaky_env [?rice] (checkout_start flaky_env three_lines))"
  define applied where
    "applied = snd (deductBatches flaky_env ?salt (qty ?salt) [?b3]
                      (emit (Remote (BatchesFEFO (productId ?salt))) reached))"
  have split: "cart three_lines = [?rice] @ ?salt # [?milk]"
    and first: "cart three_lines = [] @ ?rice # [?salt, ?milk]"
    by (simp_all add: three_lines_def session_def)
  have r: "reached =
      three_lines
        \<lparr>inventory_batches :=
           [?b1\<lparr>quantity := 0, status := ''sold_out''\<rparr>, ?b2\<lparr>quantity := 1\<rparr>, ?b3, ?b5, ?b4],
         isCheckingOut := True,
         trace :=
           [WindowOpen, ReceiptWritten ?receipt, Remote (BatchesFEFO ''rice''),
            Remote (BatchUpdate ''b1'' 0 ''sold_out''), Remote (BatchUpdate ''b2'' 1 ''active'')]\<rparr>"
    and f1: "fst (deductCart flaky_env [?rice] (checkout_start flaky_env three_lines)) = None"
    unfolding reached_def
    by (simp_all add: three_lines_def flaky_env_def shop_env_def session_def stock_def line_def
          query_defs checkout_defs)
  have before: "deductCart flaky_env [?rice] (checkout_start flaky_env three_lines)
                  = (None, reached)"
    using f1 unfolding reached_def by (simp add: prod_eq_iff)
  have fetched: "fails flaky_env (trace reached) (BatchesFEFO (productId ?salt)) = None"
    by (simp add: flaky_env_def shop_env_def)
  have rows: "rows_fefo flaky_env (productId ?salt) (inventory_batches reached) = [?b3] @ ?b5 # []"
    unfolding r
    by (simp add: rows_fefo_def qualifying_def flaky_env_def shop_env_def stock_def line_def)
  have a: "applied =
      three_lines
        \<lparr>inventory_batches :=
           [?b1\<lparr>quantity := 0, status := ''sold_out''\<rparr>, ?b2\<lparr>quantity := 1\<rparr>,
            ?b3\<lparr>quantity := 0, status := ''sold_out''\<rparr>, ?b5, ?b4],
         isCheckingOut := True,
         trace :=
           [WindowOpen, ReceiptWritten ?receipt, Remote (BatchesFEFO ''rice''),
            Remote (BatchUpdate ''b1'' 0 ''sold_out''), Remote (BatchUpdate ''b2'' 1 ''active''),
            Remote (BatchesFEFO ''salt''), Remote (BatchUpdate ''b3'' 0 ''sold_out'')]\<rparr>"
    and f2: "fst (deductBatches flaky_env ?salt (qty ?salt) [?b3]
                    (emit (Remote (BatchesFEFO (productId ?salt))) reached)) = None"
    unfolding applied_def r
    by (simp_all add: three_lines_def flaky_env_def shop_env_def session_def stock_def line_def
          query_defs)
  have written: "deductBatches flaky_env ?salt (qty ?salt) [?b3]
                   (emit (Remote (BatchesFEFO (productId ?salt))) reached) = (None, applied)"
    using f2 unfolding applied_def by (simp add: prod_eq_iff)
  have left: "remaining_after (qty ?salt) [?b3] = 1"
    by (simp add: stock_def line_def)
  then have unmet: "remaining_after (qty ?salt) [?b3] \<noteq> 0" by simp
  have request: "update_request 1 ?b5 = BatchUpdate ''b5'' 3 ''active''"
    by (simp add: update_request_def stock_def Let_def)
  have failed: "fails flaky_env (trace applied) (update_request (remaining_after (qty ?salt) [?b3]) ?b5)
                  = Some ''timeout''"
    unfolding left request by (simp add: flaky_env_def shop_env_def)
  note outcome =
    finalizeCheckout_partial_failure[THEN conjunct2, THEN conjunct1, THEN mp,
      OF conjI[OF split conjI[OF before conjI[OF fetched conjI[OF rows conjI[OF written
           conjI[OF unmet failed]]]]]], unfolded left request]
  have events: "trace (finalizeCheckout flaky_env three_lines) =
     [WindowOpen, ReceiptWritten ?receipt, Remote (BatchesFEFO ''rice''),
      Remote (BatchUpdate ''b1'' 0 ''sold_out''), Remote (BatchUpdate ''b2'' 1 ''active''),
      Remote (BatchesFEFO ''salt''),
      Remote (BatchUpdate ''b3'' 0 ''sold_out''), Remote (BatchUpdate ''b5'' 3 ''active''),
      ConsoleError, ConsoleError,
      Toast (InventoryUpdateFailed
               ''Failed to update inventory for Salt. Please check manually.'')]"
    unfolding outcome[THEN conjunct1] a by (simp add: line_def)
  have table: "inventory_batches (finalizeCheckout flaky_env three_lines) =
     [?b1\<lparr>quantity := 0, status := ''sold_out''\<rparr>, ?b2\<lparr>quantity := 1\<rparr>,
      ?b3\<lparr>quantity := 0, status := ''sold_out''\<rparr>, ?b5, ?b4]"
    unfolding outcome[THEN conjunct2, THEN conjunct1] a by simp
  have kept: "cart (finalizeCheckout flaky_env three_lines) = cart three_lines"
    by (rule outcome[THEN conjunct2, THEN conjunct2, THEN conjunct1])
  have "isOpen three_lines" by (simp add: three_lines_def session_def)
  then have "open": "isOpen (finalizeCheckout flaky_env three_lines)"
    using outcome[THEN conjunct2, THEN conjunct2, THEN conjunct2, THEN conjunct1] by simp
  have start: "deductCart offline_env [] (checkout_start offline_env three_lines)
                 = (None, checkout_start offline_env three_lines)"
    by simp
  have refused: "fails offline_env (trace (checkout_start offline_env three_lines))
                   (BatchesFEFO (productId ?rice)) = Some ''offline''"
    by (simp add: offline_env_def)
  note stopped =
    finalizeCheckout_partial_failure[THEN conjunct1, THEN mp,
      OF conjI[OF first conjI[OF start refused]]]
  have receipt: "receipt_of offline_env (cart three_lines) = ?receipt"
    by (simp add: receipt_of_def subtotal_def offline_env_def shop_env_def three_lines_def
          session_def line_def)
  have "trace three_lines = []" "popup offline_env"
    by (simp_all add: three_lines_def session_def offline_env_def shop_env_def)
  then have events': "trace (finalizeCheckout offline_env three_lines) =
     [WindowOpen, ReceiptWritten ?receipt, Remote (BatchesFEFO ''rice''), ConsoleError,
      Toast (InventoryUpdateFailed ''Failed to fetch batches for Rice: offline'')]"
    unfolding stopped[THEN conjunct1] by (simp add: checkout_start_trace receipt line_def)
  have table': "inventory_batches (finalizeCheckout offline_env three_lines)
                  = inventory_batches three_lines"
    using stopped[THEN conjunct2, THEN conjunct1] by simp
  have kept': "cart (finalizeCheckout offline_env three_lines) = cart three_lines"
    by (rule stopped[THEN conjunct2, THEN conjunct2, THEN conjunct1])
  have rows': "rows_fefo flaky_env ''salt''
      (inventory_batches
         (snd (deductCart flaky_env [?rice] (checkout_start flaky_env three_lines)))) =
     [?b3] @ ?b5 # []"
    using rows unfolding reached_def by (simp add: line_def)
  have left': "remaining_after 2 [?b3] = 1" using left by (simp add: line_def)
  show ?thesis
    apply (intro conjI)
    subgoal by (rule split)
    subgoal by (rule f1)
    subgoal by (rule rows')
    subgoal by (rule left')
    subgoal by (rule request)
    subgoal by (rule events)
    subgoal by (rule table)
    subgoal by (rule kept)
    subgoal by (rule "open")
    subgoal by (rule events')
    subgoal by (rule table')
    subgoal by (rule kept')
    done
qed

subsection \<open>A request larger than the stock\<close>

text \<open>
  When no call fails, checkout always ends in the success branch: the success toast,
  the callback, and \<^verbatim>\<open>setIsOpen(false)\<close>. A line that asks for at least the whole
  stock drains every fetched batch, and nothing reports what could not be deducted. The
  success branch sets only \<open>isOpen\<close> and \<open>isCheckingOut\<close>; the cart is emptied by
  \<open>resetState\<close>, which only the dialog's own close event reaches.
\<close>

lemma finalizeCheckout_success:
  assumes "reliable e" "cart s \<noteq> []"
  shows "finalizeCheckout e s =
           (emit InventoryUpdated
              (emit (Toast CheckoutSuccessful) (snd (deductCart e (cart s) (checkout_start e s)))))
             \<lparr>isOpen := False, isCheckingOut := False\<rparr>"
proof -
  obtain s3 where "deductCart e (cart s) (checkout_start e s) = (None, s3)"
    using deductCart_no_error[OF assms(1), of "cart s" "checkout_start e s"]
    by (cases "deductCart e (cart s) (checkout_start e s)") auto
  then show ?thesis using assms(2) by (simp add: finalizeCheckout_def)
qed

lemma finalizeCheckout_success_keeps_cart:
  assumes "reliable e" "cart s \<noteq> []"
  shows "cart (finalizeCheckout e s) = cart s \<and> \<not> isOpen (finalizeCheckout e s) \<and>
         (\<exists>before. trace (finalizeCheckout e s) = before @ [Toast CheckoutSuccessful, InventoryUpdated])"
  using deductCart_frame[of e "cart s" "checkout_start e s"]
  by (simp add: finalizeCheckout_success[OF assms])

lemma deductItem_shortfall:
  assumes "reliable e" "distinct (map batch_id (inventory_batches s))"
    "sum_list (map quantity (rows_fefo e (productId item) (inventory_batches s))) \<le> qty item"
  shows "inventory_batches (snd (deductItem e item s)) =
           replace_rows
             (map (\<lambda>b. b\<lparr>quantity := 0, status := ''sold_out''\<rparr>)
                (rows_fefo e (productId item) (inventory_batches s)))
             (inventory_batches s) \<and>
         fst (deductItem e item s) = None"
proof -
  let ?bs = "rows_fefo e (productId item) (inventory_batches s)"
  have pos: "\<forall>b \<in> set ?bs. 0 < quantity b" using rows_fefo_active by blast
  have "0 \<le> sum_list (map quantity ?bs)" using pos by (rule sum_quantity_nonneg)
  then have "0 \<le> qty item" using assms(3) by simp
  from deductItem_rows[OF assms(1,2) this] fefo_spec_shortfall[OF assms(3) pos]
    deductItem_no_error[OF assms(1)]
  show ?thesis by simp
qed

lemma onOpenChange_close_clears: "cart (onOpenChange False s) = []"
  by (simp add: onOpenChange_def resetState_def)

text \<open>
  Claim C4, evaluated. A line asks for 15 units with 6 in stock and no call fails. Both
  batches are drained, checkout reports success and closes the dialog, the shortfall of
  9 is reported nowhere, and the cart still holds the line: the claim's "clears the
  cart" is what the close handler would do, not what the success path does.
\<close>

theorem finalizeCheckout_shortfall_keeps_cart:
  "finalizeCheckout shop_env shortfall_example =
     shortfall_example
       \<lparr>inventory_batches :=
          [(stock ''b1'' ''rice'' 4 (2024, 1, 1))\<lparr>quantity := 0, status := ''sold_out''\<rparr>,
           (stock ''b2'' ''rice'' 2 (2024, 2, 1))\<lparr>quantity := 0, status := ''sold_out''\<rparr>],
        isOpen := False,
        trace :=
          [WindowOpen,
           ReceiptWritten \<lparr>receipt_shop = ''Corner Shop'',
                           receipt_lines = [(''Rice'', 15, 30, 450)],
                           receipt_subtotal = 450\<rparr>,
           Remote (BatchesFEFO ''rice''),
           Remote (BatchUpdate ''b1'' 0 ''sold_out''), Remote (BatchUpdate ''b2'' 0 ''sold_out''),
           Toast CheckoutSuccessful, InventoryUpdated]\<rparr> \<and>
   cart (finalizeCheckout shop_env shortfall_example) = [line ''rice'' ''Rice'' 15 20] \<and>
   cart (onOpenChange False shortfall_example) = []"
  by (simp add: shortfall_example_def shop_env_def session_def stock_def line_def
        query_defs checkout_defs onOpenChange_def resetState_def)

section \<open>Cart resolver\<close>

subsection \<open>The queries when no call fails\<close>








lemma matchProduct_by_code:
  assumes "fails e (trace s) (ProductByGtin g) = None" "ocr_gtin ocr = Some g" "g \<noteq> []"
    "filter (\<lambda>p. prod_gtin p = Some g) (products s) = [p]"
  shows "matchProduct e ocr s = (Some p, emit (Remote (ProductByGtin g)) s)"
  using assms
  by (simp add: matchProduct_def select_product_by_gtin_def remote_def emit_def)



lemma emit_only_trace: "emit ev s = s\<lparr>trace := trace s @ [ev]\<rparr>"
  by (simp add: emit_def)






lemmas dairy_defs =
  dairy_def milk_A_def milk_B_def milk_C_def shop_env_def session_def stock_def
  code_matches_def name_matches_def has_batch_on_def probed_def code_lookup_def
  exact_batches_def all_batches_def chosen_batches_def stock_requests_def
  trim_def is_space_def



text \<open>
  Claim C8. When the guess carries a code, the lookup does not fail and exactly one
  product has that code, resolution selects that product after the single lookup: no
  name search and no probe is issued, and the name and expiry date the guess carries
  make no difference to the selection. The stock lookup that follows is for that
  product.
\<close>

theorem code_match_wins:
  assumes "ocr_gtin ocr = Some g" "code_matches (Some g) (products s) = [p]"
    "fails e (trace s) (ProductByGtin g) = None"
  shows "matchProduct e ocr s = (Some p, emit (Remote (ProductByGtin g)) s) \<and>
         matchProduct e (ocr\<lparr>productName := nm, expiryDate := d\<rparr>) s = matchProduct e ocr s \<and>
         resolveScannedProductToCart e ocr s =
           (case fetchBatches e ocr p (emit (Remote (ProductByGtin g)) s) of
              (Some (firstBatch # others), s2) \<Rightarrow> addToCart ocr p firstBatch (firstBatch # others) s2
            | (_, s2) \<Rightarrow> emit (Toast OutOfStock) s2)"
proof -
  have g: "g \<noteq> []" and one: "filter (\<lambda>p. prod_gtin p = Some g) (products s) = [p]"
    using assms(2) by (auto simp: code_matches_def split: if_splits)
  have m: "matchProduct e ocr' s = (Some p, emit (Remote (ProductByGtin g)) s)"
    if "ocr_gtin ocr' = Some g" for ocr'
    using matchProduct_by_code[OF assms(3) that g one] .
  have "matchProduct e ocr s = (Some p, emit (Remote (ProductByGtin g)) s)"
    using m assms(1) by simp
  moreover have "matchProduct e (ocr\<lparr>productName := nm, expiryDate := d\<rparr>) s
                   = (Some p, emit (Remote (ProductByGtin g)) s)"
    using m[of "ocr\<lparr>productName := nm, expiryDate := d\<rparr>"] assms(1) by simp
  ultimately show ?thesis by (simp add: resolveScannedProductToCart_def)
qed

text \<open>
  The code of Milk B together with a name and a date that, alone, select Milk A: the code
  wins.
\<close>

theorem code_match_wins_witness:
  "ocr_gtin \<lparr>ocr_gtin = Some ''8902'', productName = Some '' milk '',
             expiryDate = Some (2024, 5, 1)\<rparr> = Some ''8902'' \<and>
   code_matches (Some ''8902'') (products dairy) = [milk_B] \<and>
   fails shop_env (trace dairy) (ProductByGtin ''8902'') = None \<and>
   matchProduct shop_env
       \<lparr>ocr_gtin = Some ''8902'', productName = Some '' milk '', expiryDate = Some (2024, 5, 1)\<rparr>
       dairy = (Some milk_B, dairy\<lparr>trace := [Remote (ProductByGtin ''8902'')]\<rparr>) \<and>
   fst (matchProduct shop_env
       \<lparr>ocr_gtin = None, productName = Some '' milk '', expiryDate = Some (2024, 5, 1)\<rparr>
       dairy) = Some milk_A"
proof -
  let ?ocr = "\<lparr>ocr_gtin = Some ''8902'', productName = Some '' milk '',
               expiryDate = Some (2024, 5, 1)\<rparr>"
  have a: "ocr_gtin ?ocr = Some ''8902''" by simp
  have b: "code_matches (Some ''8902'') (products dairy) = [milk_B]"
    by (simp add: dairy_defs)
  have c: "fails shop_env (trace dairy) (ProductByGtin ''8902'') = None"
    by (simp add: shop_env_def)
  have t: "emit (Remote (ProductByGtin ''8902'')) dairy
             = dairy\<lparr>trace := [Remote (ProductByGtin ''8902'')]\<rparr>"
    by (simp add: emit_def dairy_def session_def)
  have byname: "fst (matchProduct shop_env
       \<lparr>ocr_gtin = None, productName = Some '' milk '', expiryDate = Some (2024, 5, 1)\<rparr>
       dairy) = Some milk_A"
    by (simp add: dairy_defs matchProduct_def query_defs)
  from code_match_wins[OF a b c, of None None] a b c t byname show ?thesis by simp
qed

subsection \<open>The stock lookup\<close>











end
